theory Spec2Isabelle
  imports Complex_Main "HOL-Library.AList" "HOL-Library.Char_ord" "HOL-Library.List_Lexorder"
begin

section \<open>Floating-point values as the pipeline sees them\<close>

text \<open>
  The pipeline reads IEEE doubles and tests them with \<open>np.isnan\<close>. A value is NaN, one of
  the two infinities, or a number; numbers are modelled by reals (rounding and overflow are
  outside the model). Every comparison with NaN is false, as in Python; an infinity is not
  NaN.
\<close>

datatype pyfloat = NaN | Val real | PInf | NInf

fun isnan :: "pyfloat \<Rightarrow> bool" where
  "isnan NaN = True"
| "isnan (Val r) = False"
| "isnan PInf = False"
| "isnan NInf = False"

fun fle :: "pyfloat \<Rightarrow> pyfloat \<Rightarrow> bool" where
  "fle NaN b = False"
| "fle a NaN = False"
| "fle NInf b = True"
| "fle a PInf = True"
| "fle (Val a) (Val b) = (a \<le> b)"
| "fle a b = False"

fun flt :: "pyfloat \<Rightarrow> pyfloat \<Rightarrow> bool" where
  "flt NaN b = False"
| "flt a NaN = False"
| "flt PInf b = False"
| "flt a NInf = False"
| "flt NInf b = True"
| "flt a PInf = True"
| "flt (Val a) (Val b) = (a < b)"

definition inf_times :: "bool \<Rightarrow> real \<Rightarrow> pyfloat" where
  "inf_times positive b =
     (if b = 0 then NaN else if (0 < b) = positive then PInf else NInf)"

fun fmul :: "pyfloat \<Rightarrow> pyfloat \<Rightarrow> pyfloat" where
  "fmul NaN b = NaN"
| "fmul a NaN = NaN"
| "fmul (Val a) (Val b) = Val (a * b)"
| "fmul PInf (Val b) = inf_times True b"
| "fmul NInf (Val b) = inf_times False b"
| "fmul (Val a) PInf = inf_times True a"
| "fmul (Val a) NInf = inf_times False a"
| "fmul PInf PInf = PInf"
| "fmul NInf NInf = PInf"
| "fmul PInf NInf = NInf"
| "fmul NInf PInf = NInf"

fun fadd :: "pyfloat \<Rightarrow> pyfloat \<Rightarrow> pyfloat" where
  "fadd NaN b = NaN"
| "fadd a NaN = NaN"
| "fadd (Val a) (Val b) = Val (a + b)"
| "fadd PInf NInf = NaN"
| "fadd NInf PInf = NaN"
| "fadd PInf b = PInf"
| "fadd a PInf = PInf"
| "fadd NInf b = NInf"
| "fadd a NInf = NInf"

section \<open>Region classification and unit conversion\<close>

text \<open>\<open>determine_ocean_region\<close>: the \<open>if\<close>/\<open>elif\<close> chain of the source, in its order.\<close>

definition determine_ocean_region :: "pyfloat \<Rightarrow> pyfloat \<Rightarrow> string" where
  "determine_ocean_region lat lon =
     (if (fle (Val (-180)) lon \<and> fle lon (Val (-60))) \<and> (fle (Val 10) lat \<and> fle lat (Val 70))
        then ''North Atlantic''
      else if (fle (Val 60) lon \<and> fle lon (Val 180)) \<and> (fle (Val 10) lat \<and> fle lat (Val 70))
        then ''North Pacific''
      else if (fle (Val (-60)) lon \<and> fle lon (Val 20)) \<and> (fle (Val (-60)) lat \<and> fle lat (Val 10))
        then ''South Atlantic''
      else if (fle (Val 20) lon \<and> fle lon (Val 180)) \<and> (fle (Val (-60)) lat \<and> fle lat (Val 10))
        then ''South Pacific''
      else if (fle (Val 20) lon \<and> fle lon (Val 120)) \<and> (fle (Val (-40)) lat \<and> fle lat (Val 30))
        then ''Indian Ocean''
      else if flt (Val 70) lat then ''Arctic Ocean''
      else if flt lat (Val (-60)) then ''Southern Ocean''
      else ''Unknown'')"

text \<open>
  The classifier as the specification words it: an ordered table of rules, each a
  longitude box and a latitude box with inclusive bounds (rules 1 to 5), then the two open
  half-lines (rules 6 and 7), then the default (rule 8); the first matching rule wins.
\<close>

definition in_closed :: "real \<Rightarrow> real \<Rightarrow> pyfloat \<Rightarrow> bool" where
  "in_closed lo hi x = (case x of Val r \<Rightarrow> lo \<le> r \<and> r \<le> hi | _ \<Rightarrow> False)"

definition north_of :: "real \<Rightarrow> pyfloat \<Rightarrow> bool" where
  "north_of b x = (case x of Val r \<Rightarrow> b < r | PInf \<Rightarrow> True | _ \<Rightarrow> False)"

definition south_of :: "real \<Rightarrow> pyfloat \<Rightarrow> bool" where
  "south_of b x = (case x of Val r \<Rightarrow> r < b | NInf \<Rightarrow> True | _ \<Rightarrow> False)"

definition region_rules :: "((pyfloat \<Rightarrow> pyfloat \<Rightarrow> bool) \<times> string) list" where
  "region_rules =
     [(\<lambda>lat lon. in_closed (-180) (-60) lon \<and> in_closed 10 70 lat, ''North Atlantic''),
      (\<lambda>lat lon. in_closed 60 180 lon \<and> in_closed 10 70 lat, ''North Pacific''),
      (\<lambda>lat lon. in_closed (-60) 20 lon \<and> in_closed (-60) 10 lat, ''South Atlantic''),
      (\<lambda>lat lon. in_closed 20 180 lon \<and> in_closed (-60) 10 lat, ''South Pacific''),
      (\<lambda>lat lon. in_closed 20 120 lon \<and> in_closed (-40) 30 lat, ''Indian Ocean''),
      (\<lambda>lat lon. north_of 70 lat, ''Arctic Ocean''),
      (\<lambda>lat lon. south_of (-60) lat, ''Southern Ocean''),
      (\<lambda>lat lon. True, ''Unknown'')]"

fun first_match :: "((pyfloat \<Rightarrow> pyfloat \<Rightarrow> bool) \<times> string) list \<Rightarrow> pyfloat \<Rightarrow> pyfloat \<Rightarrow> string option" where
  "first_match [] lat lon = None"
| "first_match ((p, name) # rules) lat lon =
     (if p lat lon then Some name else first_match rules lat lon)"

definition region_names :: "string list" where
  "region_names = map snd region_rules"

text \<open>\<open>pressure_to_depth\<close>: one decibar is taken as 1.019716 metres.\<close>

definition pressure_to_depth :: "pyfloat \<Rightarrow> pyfloat" where
  "pressure_to_depth pressure = fmul pressure (Val (1019716 / 1000000))"

section \<open>Decoding one dataset file\<close>

text \<open>Python exceptions that the pipeline raises and catches.\<close>

datatype error = IndexError | ValueError | OSError | RuntimeError

definition item :: "'a list \<Rightarrow> nat \<Rightarrow> error + 'a" where
  "item xs i = (if i < length xs then Inr (xs ! i) else Inl IndexError)"

text \<open>\<open>str\<close> of a non-negative and of any integer, in decimal.\<close>

fun str_nat :: "nat \<Rightarrow> string" where
  "str_nat n = (if n < 10 then [''0123456789'' ! n] else str_nat (n div 10) @ [''0123456789'' ! (n mod 10)])"

declare str_nat.simps [simp del]

definition str_int :: "int \<Rightarrow> string" where
  "str_int k = (if k < 0 then ''-'' @ str_nat (nat (- k)) else str_nat (nat k))"

text \<open>
  Python's float formatting (\<open>:.2f\<close> and \<open>:.0f\<close>) belongs to the interpreter; the two
  formatters are parameters of the decoder.
\<close>

record float_format =
  fmt2 :: "pyfloat \<Rightarrow> string"
  fmt0 :: "pyfloat \<Rightarrow> string"

record measurement =
  m_id :: string
  m_platform_number :: string
  m_cycle_number :: int
  m_latitude :: pyfloat
  m_longitude :: pyfloat
  m_measurement_time :: real
  m_temperature :: pyfloat
  m_salinity :: pyfloat
  m_pressure :: pyfloat
  m_depth :: pyfloat
  m_quality_flag :: string
  m_ocean_region :: string
  m_data_source :: string
  m_level_index :: nat

record stat_range =
  r_min :: pyfloat
  r_max :: pyfloat
  r_mean :: pyfloat

record profile =
  p_id :: string
  p_platform_number :: string
  p_cycle_number :: int
  p_profile_date :: real
  p_latitude :: pyfloat
  p_longitude :: pyfloat
  p_max_depth :: pyfloat
  p_num_measurements :: nat
  p_temperature_range :: stat_range
  p_salinity_range :: stat_range
  p_pressure_range :: stat_range
  p_ocean_region :: string
  p_data_quality_score :: real
  p_summary_text :: string
  p_file_source :: string
  p_processed_at :: real
  p_total_levels :: nat
  p_valid_levels :: nat
  p_vector_embedding :: "real list option"

text \<open>
  The opened dataset: the platform attribute (absent: \<open>None\<close>), the length of the profile
  coordinate, and the arrays. An entry of \<open>JULD\<close> is a number of days since 1950-01-01
  that \<open>pd.to_datetime\<close> converts, a missing time, or a value on which the conversion
  raises (out of the range of timestamps, or of a type it refuses with an origin). A file
  that cannot be opened, or lacks a variable, is \<open>Unreadable\<close>.
\<close>

datatype juld = Days real | NaT | Unconvertible

record dataset =
  attr_platform_number :: "string option"
  N_PROF :: nat
  CYCLE_NUMBER :: "int list"
  LATITUDE :: "pyfloat list"
  LONGITUDE :: "pyfloat list"
  JULD :: "juld list"
  TEMP :: "pyfloat list list"
  PSAL :: "pyfloat list list"
  PRES :: "pyfloat list list"

datatype nc_file = Unreadable | Dataset dataset

text \<open>Python's \<open>min\<close> and \<open>max\<close> of a non-empty list (head and rest), and \<open>np.mean\<close>.\<close>

fun py_min :: "pyfloat \<Rightarrow> pyfloat list \<Rightarrow> pyfloat" where
  "py_min m [] = m"
| "py_min m (x # xs) = py_min (if flt x m then x else m) xs"

fun py_max :: "pyfloat \<Rightarrow> pyfloat list \<Rightarrow> pyfloat" where
  "py_max m [] = m"
| "py_max m (x # xs) = py_max (if flt m x then x else m) xs"

definition np_mean :: "pyfloat list \<Rightarrow> pyfloat" where
  "np_mean xs = (case fold (\<lambda>x s. fadd s x) xs (Val 0) of
                   Val s \<Rightarrow> Val (s / real (length xs)) | other \<Rightarrow> other)"

definition stats :: "pyfloat \<Rightarrow> pyfloat list \<Rightarrow> stat_range" where
  "stats x xs = \<lparr> r_min = py_min x xs, r_max = py_max x xs, r_mean = np_mean (x # xs) \<rparr>"

text \<open>The measurement dictionary built for one valid level.\<close>

definition make_measurement ::
  "string \<Rightarrow> string \<Rightarrow> int \<Rightarrow> pyfloat \<Rightarrow> pyfloat \<Rightarrow> real \<Rightarrow> string
     \<Rightarrow> nat \<Rightarrow> pyfloat \<Rightarrow> pyfloat \<Rightarrow> pyfloat \<Rightarrow> measurement" where
  "make_measurement file_path platform_number cycle_number profile_lat profile_lon profile_time
       ocean_region level_idx temp sal pressure =
     \<lparr> m_id = platform_number @ ''_'' @ str_int cycle_number @ ''_'' @ str_nat level_idx,
       m_platform_number = platform_number,
       m_cycle_number = cycle_number,
       m_latitude = profile_lat,
       m_longitude = profile_lon,
       m_measurement_time = profile_time,
       m_temperature = temp,
       m_salinity = sal,
       m_pressure = pressure,
       m_depth = pressure_to_depth pressure,
       m_quality_flag = ''good'',
       m_ocean_region = ocean_region,
       m_data_source = file_path,
       m_level_index = level_idx \<rparr>"

text \<open>
  The loop over the depth levels of one profile. The three arrays are read at the level
  index before the NaN test, so a short salinity or pressure row raises. The source
  appends to \<open>valid_measurements\<close> and to three parallel lists of the same values; the
  model keeps \<open>valid_measurements\<close> and reads the three lists off it.
\<close>

fun level_loop ::
  "(nat \<Rightarrow> pyfloat \<Rightarrow> pyfloat \<Rightarrow> pyfloat \<Rightarrow> measurement)
     \<Rightarrow> pyfloat list \<Rightarrow> pyfloat list \<Rightarrow> pyfloat list \<Rightarrow> nat list
     \<Rightarrow> measurement list \<Rightarrow> error + measurement list" where
  "level_loop mk temps sals pres [] valid_measurements = Inr valid_measurements"
| "level_loop mk temps sals pres (level_idx # rest) valid_measurements =
     (if level_idx < length temps \<and> level_idx < length sals \<and> level_idx < length pres then
        (let temp = temps ! level_idx; sal = sals ! level_idx; pressure = pres ! level_idx in
         if \<not> (isnan temp \<or> isnan sal \<or> isnan pressure)
         then level_loop mk temps sals pres rest
                (valid_measurements @ [mk level_idx temp sal pressure])
         else level_loop mk temps sals pres rest valid_measurements)
      else Inl IndexError)"

definition degree_sign :: string where
  "degree_sign = [CHR 0xC2, CHR 0xB0]"

definition summary_text_of ::
  "float_format \<Rightarrow> string \<Rightarrow> int \<Rightarrow> pyfloat \<Rightarrow> pyfloat \<Rightarrow> string
     \<Rightarrow> measurement \<Rightarrow> measurement list \<Rightarrow> string" where
  "summary_text_of fm platform_number cycle_number profile_lat profile_lon ocean_region m ms =
     ''ARGO float '' @ platform_number @ '' profile '' @ str_int cycle_number
     @ '' at '' @ fmt2 fm profile_lat @ degree_sign @ ''N '' @ fmt2 fm profile_lon @ degree_sign
     @ ''E in '' @ ocean_region
     @ '' with '' @ str_nat (length (m # ms)) @ '' measurements. ''
     @ ''Temperature range: '' @ fmt2 fm (py_min (m_temperature m) (map m_temperature ms))
     @ ''-'' @ fmt2 fm (py_max (m_temperature m) (map m_temperature ms)) @ degree_sign @ ''C, ''
     @ ''Salinity range: '' @ fmt2 fm (py_min (m_salinity m) (map m_salinity ms))
     @ ''-'' @ fmt2 fm (py_max (m_salinity m) (map m_salinity ms)) @ '' PSU, ''
     @ ''Depth range: 0-'' @ fmt0 fm (py_max (m_depth m) (map m_depth ms)) @ ''m''"

text \<open>
  The profile summary built when \<open>valid_measurements\<close> is \<open>m # ms\<close>; \<open>total_levels\<close> is
  \<open>len(temps)\<close>. The quality score divides the two lengths.
\<close>

definition make_profile ::
  "float_format \<Rightarrow> real \<Rightarrow> string \<Rightarrow> string \<Rightarrow> int \<Rightarrow> pyfloat \<Rightarrow> pyfloat \<Rightarrow> real
     \<Rightarrow> string \<Rightarrow> nat \<Rightarrow> measurement \<Rightarrow> measurement list \<Rightarrow> profile" where
  "make_profile fm now file_path platform_number cycle_number profile_lat profile_lon
       profile_time ocean_region total_levels m ms =
     \<lparr> p_id = platform_number @ ''_'' @ str_int cycle_number,
       p_platform_number = platform_number,
       p_cycle_number = cycle_number,
       p_profile_date = profile_time,
       p_latitude = profile_lat,
       p_longitude = profile_lon,
       p_max_depth = py_max (m_depth m) (map m_depth ms),
       p_num_measurements = length (m # ms),
       p_temperature_range = stats (m_temperature m) (map m_temperature ms),
       p_salinity_range = stats (m_salinity m) (map m_salinity ms),
       p_pressure_range = stats (m_pressure m) (map m_pressure ms),
       p_ocean_region = ocean_region,
       p_data_quality_score = real (length (m # ms)) / real total_levels,
       p_summary_text = summary_text_of fm platform_number cycle_number profile_lat profile_lon
                          ocean_region m ms,
       p_file_source = file_path,
       p_processed_at = now,
       p_total_levels = total_levels,
       p_valid_levels = length (m # ms),
       p_vector_embedding = None \<rparr>"

text \<open>
  The time of a profile: the \<open>JULD\<close> entry, or the current time when the entry is missing
  or its conversion fails (the inner \<open>try\<close> also covers an index out of range).
\<close>

definition profile_time_of :: "real \<Rightarrow> dataset \<Rightarrow> nat \<Rightarrow> real" where
  "profile_time_of now ds cycle_idx =
     (case item (JULD ds) cycle_idx of
        Inl e \<Rightarrow> now
      | Inr Unconvertible \<Rightarrow> now
      | Inr NaT \<Rightarrow> now
      | Inr (Days d) \<Rightarrow> d)"

text \<open>
  The body of the loop over the profiles of a file, on the two variables it updates:
  \<open>float_data\<close> is extended, \<open>profile_data\<close> is overwritten when the profile has a valid
  level and left as it is otherwise.
\<close>

definition process_cycle ::
  "float_format \<Rightarrow> real \<Rightarrow> string \<Rightarrow> dataset \<Rightarrow> string \<Rightarrow> nat
     \<Rightarrow> measurement list \<times> profile option \<Rightarrow> error + (measurement list \<times> profile option)" where
  "process_cycle fm now file_path ds platform_number cycle_idx st =
     (case item (CYCLE_NUMBER ds) cycle_idx of Inl e \<Rightarrow> Inl e | Inr cycle_number \<Rightarrow>
      case item (LATITUDE ds) cycle_idx of Inl e \<Rightarrow> Inl e | Inr profile_lat \<Rightarrow>
      case item (LONGITUDE ds) cycle_idx of Inl e \<Rightarrow> Inl e | Inr profile_lon \<Rightarrow>
      let profile_time = profile_time_of now ds cycle_idx;
          ocean_region = determine_ocean_region profile_lat profile_lon in
      case item (TEMP ds) cycle_idx of Inl e \<Rightarrow> Inl e | Inr temps \<Rightarrow>
      case item (PSAL ds) cycle_idx of Inl e \<Rightarrow> Inl e | Inr sals \<Rightarrow>
      case item (PRES ds) cycle_idx of Inl e \<Rightarrow> Inl e | Inr pres \<Rightarrow>
      case level_loop
             (make_measurement file_path platform_number cycle_number profile_lat profile_lon
                profile_time ocean_region)
             temps sals pres [0..<length temps] [] of
        Inl e \<Rightarrow> Inl e
      | Inr valid_measurements \<Rightarrow>
          Inr (fst st @ valid_measurements,
               (case valid_measurements of
                  [] \<Rightarrow> snd st
                | m # ms \<Rightarrow>
                    Some (make_profile fm now file_path platform_number cycle_number profile_lat
                            profile_lon profile_time ocean_region (length temps) m ms))))"

fun cycle_loop ::
  "float_format \<Rightarrow> real \<Rightarrow> string \<Rightarrow> dataset \<Rightarrow> string \<Rightarrow> nat list
     \<Rightarrow> measurement list \<times> profile option \<Rightarrow> error + (measurement list \<times> profile option)" where
  "cycle_loop fm now file_path ds platform_number [] st = Inr st"
| "cycle_loop fm now file_path ds platform_number (cycle_idx # rest) st =
     (case process_cycle fm now file_path ds platform_number cycle_idx st of
        Inl e \<Rightarrow> Inl e
      | Inr st' \<Rightarrow> cycle_loop fm now file_path ds platform_number rest st')"

text \<open>
  \<open>process_netcdf_file\<close>: any exception, from opening the file to the last profile, is
  caught and gives the empty result. \<open>now\<close> is the clock reading during the call.
\<close>

definition platform_number_of :: "dataset \<Rightarrow> string" where
  "platform_number_of ds = (case attr_platform_number ds of None \<Rightarrow> ''unknown'' | Some s \<Rightarrow> s)"

definition process_netcdf_file ::
  "float_format \<Rightarrow> real \<Rightarrow> string \<Rightarrow> nc_file \<Rightarrow> measurement list \<times> profile option" where
  "process_netcdf_file fm now file_path file =
     (case file of
        Unreadable \<Rightarrow> ([], None)
      | Dataset ds \<Rightarrow>
          (case cycle_loop fm now file_path ds (platform_number_of ds) [0..<N_PROF ds] ([], None) of
             Inl e \<Rightarrow> ([], None)
           | Inr res \<Rightarrow> res))"

text \<open>The levels of a profile whose three readings are all numbers, and the shape a
  profile row needs for the loop body to run through.\<close>

definition valid_levels :: "pyfloat list \<Rightarrow> pyfloat list \<Rightarrow> pyfloat list \<Rightarrow> nat list" where
  "valid_levels temps sals pres =
     filter (\<lambda>i. \<not> (isnan (temps ! i) \<or> isnan (sals ! i) \<or> isnan (pres ! i))) [0..<length temps]"

definition row_ok :: "dataset \<Rightarrow> nat \<Rightarrow> bool" where
  "row_ok ds i =
     (i < length (CYCLE_NUMBER ds) \<and> i < length (LATITUDE ds) \<and> i < length (LONGITUDE ds)
      \<and> i < length (TEMP ds) \<and> i < length (PSAL ds) \<and> i < length (PRES ds)
      \<and> length (TEMP ds ! i) \<le> length (PSAL ds ! i)
      \<and> length (TEMP ds ! i) \<le> length (PRES ds ! i))"

text \<open>What one profile index contributes, read off the loop body: its measurements and
  the summary it would put into \<open>profile_data\<close>.\<close>

definition cycle_measurements :: "real \<Rightarrow> string \<Rightarrow> dataset \<Rightarrow> string \<Rightarrow> nat \<Rightarrow> measurement list" where
  "cycle_measurements now file_path ds platform_number i =
     map (\<lambda>l. make_measurement file_path platform_number (CYCLE_NUMBER ds ! i) (LATITUDE ds ! i)
                 (LONGITUDE ds ! i) (profile_time_of now ds i)
                 (determine_ocean_region (LATITUDE ds ! i) (LONGITUDE ds ! i))
                 l (TEMP ds ! i ! l) (PSAL ds ! i ! l) (PRES ds ! i ! l))
         (valid_levels (TEMP ds ! i) (PSAL ds ! i) (PRES ds ! i))"

definition cycle_profile ::
  "float_format \<Rightarrow> real \<Rightarrow> string \<Rightarrow> dataset \<Rightarrow> string \<Rightarrow> nat \<Rightarrow> profile option" where
  "cycle_profile fm now file_path ds platform_number i =
     (case cycle_measurements now file_path ds platform_number i of
        [] \<Rightarrow> None
      | m # ms \<Rightarrow>
          Some (make_profile fm now file_path platform_number (CYCLE_NUMBER ds ! i) (LATITUDE ds ! i)
                  (LONGITUDE ds ! i) (profile_time_of now ds i)
                  (determine_ocean_region (LATITUDE ds ! i) (LONGITUDE ds ! i))
                  (length (TEMP ds ! i)) m ms))"

definition well_shaped :: "dataset \<Rightarrow> bool" where
  "well_shaped ds = list_all (row_ok ds) [0..<N_PROF ds]"

definition qualifying :: "dataset \<Rightarrow> nat list" where
  "qualifying ds =
     filter (\<lambda>i. valid_levels (TEMP ds ! i) (PSAL ds ! i) (PRES ds ! i) \<noteq> []) [0..<N_PROF ds]"



section \<open>The relational store\<close>

text \<open>
  Two tables keyed by \<open>id\<close>, in the order the rows were first inserted. \<open>session.merge\<close>
  inserts a row or overwrites the row with the same primary key. A failing transaction
  (connection lost, constraint violated) is rolled back and the exception is re-raised;
  whether it fails is the environment's choice, passed as \<open>fault\<close>.
\<close>

record store =
  argo_floats :: "(string \<times> measurement) list"
  argo_profiles :: "(string \<times> profile) list"

definition merge_float :: "measurement \<Rightarrow> (string \<times> measurement) list \<Rightarrow> (string \<times> measurement) list" where
  "merge_float m tbl = AList.update (m_id m) m tbl"

definition merge_profile :: "profile \<Rightarrow> (string \<times> profile) list \<Rightarrow> (string \<times> profile) list" where
  "merge_profile p tbl = AList.update (p_id p) p tbl"

definition store_to_postgresql ::
  "bool \<Rightarrow> store \<Rightarrow> measurement list \<Rightarrow> profile option \<Rightarrow> error + store" where
  "store_to_postgresql fault db float_data profile_data =
     (if fault then Inl RuntimeError
      else Inr \<lparr> argo_floats = fold merge_float float_data (argo_floats db),
                 argo_profiles = (case profile_data of
                                    None \<Rightarrow> argo_profiles db
                                  | Some p \<Rightarrow> merge_profile p (argo_profiles db)) \<rparr>)"

text \<open>Row counts and primary keys of the two tables, and the effect of one committed batch.\<close>

definition row_counts :: "store \<Rightarrow> nat \<times> nat" where
  "row_counts s = (length (argo_floats s), length (argo_profiles s))"

definition primary_keys :: "store \<Rightarrow> string list \<times> string list" where
  "primary_keys s = (map fst (argo_floats s), map fst (argo_profiles s))"

definition upsert_batch :: "store \<Rightarrow> measurement list \<Rightarrow> profile option \<Rightarrow> store" where
  "upsert_batch s fd pd =
     \<lparr> argo_floats = fold merge_float fd (argo_floats s),
       argo_profiles = (case pd of None \<Rightarrow> argo_profiles s
                        | Some p \<Rightarrow> merge_profile p (argo_profiles s)) \<rparr>"

section \<open>The embedding index\<close>

text \<open>
  The analyzer of the TF-IDF vectorizer: lower-case the text, take the maximal runs of two
  or more word characters, drop the stop words. The stop-word table is the library's and is
  a parameter. Word characters are the ASCII letters, digits and the underscore.
\<close>

definition lower_char :: "char \<Rightarrow> char" where
  "lower_char c =
     (case map_of (zip ''ABCDEFGHIJKLMNOPQRSTUVWXYZ'' ''abcdefghijklmnopqrstuvwxyz'') c of
        None \<Rightarrow> c | Some d \<Rightarrow> d)"

definition is_word_char :: "char \<Rightarrow> bool" where
  "is_word_char c = (c \<in> set ''abcdefghijklmnopqrstuvwxyzABCDEFGHIJKLMNOPQRSTUVWXYZ0123456789_'')"

fun word_runs :: "string \<Rightarrow> string \<Rightarrow> string list" where
  "word_runs cur [] = (if cur = [] then [] else [cur])"
| "word_runs cur (c # cs) =
     (if is_word_char c then word_runs (cur @ [c]) cs
      else (if cur = [] then [] else [cur]) @ word_runs [] cs)"

definition analyze :: "string list \<Rightarrow> string \<Rightarrow> string list" where
  "analyze stop txt =
     filter (\<lambda>w. w \<notin> set stop) (filter (\<lambda>w. 2 \<le> length w) (word_runs [] (map lower_char txt)))"

text \<open>
  The vectorizer is unfitted (it has no \<open>vocabulary_\<close>) or fitted with its features in
  sorted order and one inverse document frequency per feature. Fitting on a document
  without any term raises. With more distinct terms than \<open>max_features\<close> the most frequent
  ones are kept (among equally frequent terms the model keeps the alphabetically first;
  the library leaves that choice to its sorting routine).
\<close>

datatype tfidf = Unfitted | Fitted "string list" "real list"

definition max_features :: nat where
  "max_features = 1000"

definition limit_features :: "nat \<Rightarrow> string list \<Rightarrow> string list \<Rightarrow> string list" where
  "limit_features n tokens terms =
     (if length terms \<le> n then terms
      else filter (\<lambda>t. t \<in> set (take n (sort_key (\<lambda>t. - int (count_list tokens t)) terms))) terms)"

definition smooth_idf :: "nat \<Rightarrow> nat \<Rightarrow> real" where
  "smooth_idf n_samples df = ln ((1 + real n_samples) / (1 + real df)) + 1"

definition fit :: "string list \<Rightarrow> string \<Rightarrow> error + tfidf" where
  "fit stop txt =
     (let tokens = analyze stop txt in
      if tokens = [] then Inl ValueError
      else (let vocabulary = limit_features max_features tokens (sort (remdups tokens))
            in Inr (Fitted vocabulary (map (\<lambda>t. smooth_idf 1 1) vocabulary))))"

definition l2_normalize :: "real list \<Rightarrow> real list" where
  "l2_normalize x =
     (let n = sqrt (sum_list (map (\<lambda>v. v * v) x)) in if n = 0 then x else map (\<lambda>v. v / n) x)"

definition transform :: "string list \<Rightarrow> tfidf \<Rightarrow> string \<Rightarrow> error + real list" where
  "transform stop vz txt =
     (case vz of
        Unfitted \<Rightarrow> Inl RuntimeError
      | Fitted vocabulary idf \<Rightarrow>
          (let tokens = analyze stop txt in
           Inr (l2_normalize (map2 (\<lambda>t w. real (count_list tokens t) * w) vocabulary idf))))"

text \<open>\<open>create_vector_embedding\<close>: the vectorizer after the call and the vector returned.\<close>

definition create_vector_embedding :: "string list \<Rightarrow> tfidf \<Rightarrow> string \<Rightarrow> tfidf \<times> real list" where
  "create_vector_embedding stop vz txt =
     (case (case vz of Unfitted \<Rightarrow> fit stop txt | Fitted vocabulary idf \<Rightarrow> Inr vz) of
        Inl e \<Rightarrow> (vz, replicate 1000 0)
      | Inr vz' \<Rightarrow>
          (case transform stop vz' txt of
             Inl e \<Rightarrow> (vz', replicate 1000 0)
           | Inr v \<Rightarrow> (vz', v)))"

record entry_metadata =
  md_platform_number :: string
  md_ocean_region :: string
  md_latitude :: pyfloat
  md_longitude :: pyfloat
  md_profile_date :: real
  md_temperature_range :: stat_range
  md_salinity_range :: stat_range

record embedding_entry =
  e_vector :: "real list"
  e_metadata :: entry_metadata
  e_text :: string

text \<open>The processor's index: its vectorizer and its dictionary, in insertion order.\<close>

record processor =
  vectorizer :: tfidf
  vector_store :: "(string \<times> embedding_entry) list"

definition store_to_vector_database ::
  "string list \<Rightarrow> processor \<Rightarrow> profile option \<Rightarrow> processor \<times> profile option" where
  "store_to_vector_database stop pr profile_data =
     (case profile_data of
        None \<Rightarrow> (pr, None)
      | Some p \<Rightarrow>
          (let summary_text = p_summary_text p;
               (vz, v) = create_vector_embedding stop (vectorizer pr) summary_text;
               entry = \<lparr> e_vector = v,
                         e_metadata = \<lparr> md_platform_number = p_platform_number p,
                                        md_ocean_region = p_ocean_region p,
                                        md_latitude = p_latitude p,
                                        md_longitude = p_longitude p,
                                        md_profile_date = p_profile_date p,
                                        md_temperature_range = p_temperature_range p,
                                        md_salinity_range = p_salinity_range p \<rparr>,
                         e_text = summary_text \<rparr>
           in (\<lparr> vectorizer = vz, vector_store = AList.update (p_id p) entry (vector_store pr) \<rparr>,
               Some (p \<lparr> p_vector_embedding := Some v \<rparr>))))"

text \<open>
  Cosine similarity of two rows as the library computes it: rows of different lengths, or
  without any feature, are refused; each row is normalised (a zero row stays zero) and
  the dot product is taken.
\<close>

definition cosine_similarity :: "real list \<Rightarrow> real list \<Rightarrow> error + real" where
  "cosine_similarity x y =
     (if length x \<noteq> length y \<or> length x = 0 then Inl ValueError
      else Inr (sum_list (map2 (\<lambda>a b. a * b) (l2_normalize x) (l2_normalize y))))"

record search_hit =
  h_profile_id :: string
  h_similarity :: real
  h_metadata :: entry_metadata
  h_text :: string

fun similarities_loop ::
  "real list \<Rightarrow> (string \<times> embedding_entry) list \<Rightarrow> search_hit list \<Rightarrow> error + search_hit list" where
  "similarities_loop query_vector [] similarities = Inr similarities"
| "similarities_loop query_vector ((profile_id, entry) # rest) similarities =
     (case cosine_similarity query_vector (e_vector entry) of
        Inl e \<Rightarrow> Inl e
      | Inr similarity \<Rightarrow>
          similarities_loop query_vector rest
            (similarities @ [\<lparr> h_profile_id = profile_id, h_similarity = similarity,
                               h_metadata = e_metadata entry, h_text = e_text entry \<rparr>]))"

text \<open>Python's slice \<open>xs[:k]\<close> and its stable sort on a key, largest first.\<close>

definition slice_to :: "'a list \<Rightarrow> int \<Rightarrow> 'a list" where
  "slice_to xs k = (if 0 \<le> k then take (nat k) xs else take (length xs - nat (- k)) xs)"

definition sort_reverse :: "search_hit list \<Rightarrow> search_hit list" where
  "sort_reverse hits = sort_key (\<lambda>h. - h_similarity h) hits"

definition search_similar_profiles ::
  "string list \<Rightarrow> processor \<Rightarrow> string \<Rightarrow> int \<Rightarrow> processor \<times> search_hit list" where
  "search_similar_profiles stop pr query_text top_k =
     (if vector_store pr = [] then (pr, [])
      else (let (vz, query_vector) = create_vector_embedding stop (vectorizer pr) query_text;
                pr' = pr \<lparr> vectorizer := vz \<rparr>
            in case similarities_loop query_vector (vector_store pr) [] of
                 Inl e \<Rightarrow> (pr', [])
               | Inr similarities \<Rightarrow> (pr', slice_to (sort_reverse similarities) top_k)))"

text \<open>
  Helpers for stating properties of the index: the vectorizer after a run of embedding
  calls; the similarity value and the hits the scan computes when no row is refused; and
  the condition under which no row is refused.
\<close>

definition embed_all :: "string list \<Rightarrow> tfidf \<Rightarrow> string list \<Rightarrow> tfidf" where
  "embed_all stop vz txts = fold (\<lambda>txt v. fst (create_vector_embedding stop v txt)) txts vz"

definition cos_value :: "real list \<Rightarrow> real list \<Rightarrow> real" where
  "cos_value x y = sum_list (map2 (\<lambda>a b. a * b) (l2_normalize x) (l2_normalize y))"

definition hits_of :: "real list \<Rightarrow> (string \<times> embedding_entry) list \<Rightarrow> search_hit list" where
  "hits_of query_vector entries =
     map (\<lambda>(profile_id, entry).
            \<lparr> h_profile_id = profile_id, h_similarity = cos_value query_vector (e_vector entry),
              h_metadata = e_metadata entry, h_text = e_text entry \<rparr>) entries"

definition dims_agree :: "real list \<Rightarrow> (string \<times> embedding_entry) list \<Rightarrow> bool" where
  "dims_agree query_vector entries =
     list_all (\<lambda>(profile_id, entry).
                 length (e_vector entry) = length query_vector \<and> length query_vector \<noteq> 0) entries"

text \<open>
  The invariant of an index that the pipeline builds: without a vocabulary nothing is
  stored; with one, every stored vector has its length.
\<close>

definition index_ok :: "processor \<Rightarrow> bool" where
  "index_ok pr =
     (case vectorizer pr of
        Unfitted \<Rightarrow> vector_store pr = []
      | Fitted vocabulary idf \<Rightarrow>
          vocabulary \<noteq> [] \<and> length idf = length vocabulary
          \<and> list_all (\<lambda>(profile_id, entry). length (e_vector entry) = length vocabulary)
                (vector_store pr))"

text \<open>
  Saving and loading. A file holds a pickled dictionary with, possibly, the two entries
  \<open>vector_store\<close> and \<open>vectorizer\<close>, or something else. Opening the file for writing may
  fail; then nothing is written. Loading assigns the two fields one after the other, so a
  pickle without a vectorizer has replaced the dictionary when the lookup raises.
\<close>

datatype blob = Pickled "(string \<times> embedding_entry) list option" "tfidf option" | Other

definition save_vector_store ::
  "bool \<Rightarrow> (string \<Rightarrow> blob option) \<Rightarrow> processor \<Rightarrow> string \<Rightarrow> (string \<Rightarrow> blob option)" where
  "save_vector_store can_write files pr file_path =
     (if can_write
      then files (file_path \<mapsto> Pickled (Some (vector_store pr)) (Some (vectorizer pr)))
      else files)"

definition load_vector_store ::
  "(string \<Rightarrow> blob option) \<Rightarrow> processor \<Rightarrow> string \<Rightarrow> processor \<times> bool" where
  "load_vector_store files pr file_path =
     (case files file_path of
        None \<Rightarrow> (pr, False)
      | Some Other \<Rightarrow> (pr, False)
      | Some (Pickled None vz) \<Rightarrow> (pr, False)
      | Some (Pickled (Some vs) None) \<Rightarrow> (pr \<lparr> vector_store := vs \<rparr>, False)
      | Some (Pickled (Some vs) (Some vz)) \<Rightarrow> (\<lparr> vectorizer = vz, vector_store = vs \<rparr>, True))"

section \<open>Processing a directory\<close>

text \<open>
  The environment of a run: the float formatter, the stop words, the clock reading while
  a file (by path) is decoded, and whether the store transaction for a file fails.
\<close>

record environment =
  formatter :: float_format
  stop_words :: "string list"
  clock :: "string \<Rightarrow> real"
  db_fault :: "string \<Rightarrow> bool"

datatype log_event = LogError string | LogInfo string

record pipeline =
  db :: store
  index :: processor
  log :: "log_event list"

definition process_one :: "environment \<Rightarrow> string \<Rightarrow> pipeline \<Rightarrow> string \<times> nc_file \<Rightarrow> pipeline" where
  "process_one env directory_path st nc =
     (let file_path = directory_path @ ''/'' @ fst nc;
          (float_data, profile_data) =
             process_netcdf_file (formatter env) (clock env file_path) file_path (snd nc)
      in if float_data \<noteq> [] then
           (case store_to_postgresql (db_fault env file_path) (db st) float_data profile_data of
              Inl e \<Rightarrow> st \<lparr> log := log st @ [LogError (''Failed to process '' @ fst nc)] \<rparr>
            | Inr db' \<Rightarrow>
                \<lparr> db = db',
                  index = fst (store_to_vector_database (stop_words env) (index st) profile_data),
                  log = log st @ [LogInfo (''Successfully processed '' @ fst nc)] \<rparr>)
         else st \<lparr> log := log st @ [LogInfo (''Successfully processed '' @ fst nc)] \<rparr>)"

definition process_directory ::
  "environment \<Rightarrow> pipeline \<Rightarrow> string \<Rightarrow> (string \<times> nc_file) list option \<Rightarrow> pipeline" where
  "process_directory env st directory_path listing =
     (case listing of
        None \<Rightarrow> st \<lparr> log := log st @ [LogError (''Directory '' @ directory_path @ '' does not exist'')] \<rparr>
      | Some nc_files \<Rightarrow>
          fold (\<lambda>nc s. process_one env directory_path s nc) nc_files
            (st \<lparr> log := log st @ [LogInfo (''Found '' @ str_nat (length nc_files)
                                              @ '' NetCDF files to process'')] \<rparr>))"

text \<open>A file whose decoding raises, and the data of a pipeline state (everything but the log).\<close>

definition decode_fails :: "environment \<Rightarrow> string \<Rightarrow> string \<times> nc_file \<Rightarrow> bool" where
  "decode_fails env directory_path nc =
     (case snd nc of
        Unreadable \<Rightarrow> True
      | Dataset ds \<Rightarrow>
          isl (cycle_loop (formatter env) (clock env (directory_path @ ''/'' @ fst nc))
                 (directory_path @ ''/'' @ fst nc) ds (platform_number_of ds) [0..<N_PROF ds] ([], None)))"

definition data_of :: "pipeline \<Rightarrow> store \<times> processor" where
  "data_of st = (db st, index st)"

section \<open>Querying measurements\<close>

text \<open>
  \<open>query_argo_data\<close> on the rows of \<open>argo_floats\<close> in the order the database returns them.
  The database casts a date text to a time (\<open>cast\<close>, failing on a malformed text) and
  orders NaN above every number and above the infinities. Without a session the function raises before its
  \<open>try\<close>; every later exception gives the failure response.
\<close>

datatype db_status = NoSession | QueryError | Up

record query_row =
  q_time :: real
  q_latitude :: pyfloat
  q_longitude :: pyfloat
  q_temperature :: pyfloat
  q_salinity :: pyfloat
  q_depth :: pyfloat
  q_platform_number :: string
  q_ocean_region :: string

datatype query_response = Raised error | Failure | Success nat "query_row list"

definition sql_ge :: "pyfloat \<Rightarrow> real \<Rightarrow> bool" where
  "sql_ge c x = (case c of NaN \<Rightarrow> True | PInf \<Rightarrow> True | NInf \<Rightarrow> False | Val r \<Rightarrow> x \<le> r)"

definition sql_le :: "pyfloat \<Rightarrow> real \<Rightarrow> bool" where
  "sql_le c x = (case c of NaN \<Rightarrow> False | PInf \<Rightarrow> False | NInf \<Rightarrow> True | Val r \<Rightarrow> r \<le> x)"

definition truthy :: "'a list option \<Rightarrow> bool" where
  "truthy v = (case v of None \<Rightarrow> False | Some xs \<Rightarrow> xs \<noteq> [])"

definition region_filter :: "string option \<Rightarrow> measurement \<Rightarrow> bool" where
  "region_filter region row =
     (if truthy region \<and> region \<noteq> Some ''Unknown'' then m_ocean_region row = the region else True)"

definition start_filter :: "(string \<Rightarrow> real option) \<Rightarrow> string option \<Rightarrow> error + (measurement \<Rightarrow> bool)" where
  "start_filter cast start_date =
     (if truthy start_date then
        (case cast (the start_date) of
           None \<Rightarrow> Inl ValueError
         | Some t \<Rightarrow> Inr (\<lambda>row. t \<le> m_measurement_time row))
      else Inr (\<lambda>row. True))"

definition end_filter :: "(string \<Rightarrow> real option) \<Rightarrow> string option \<Rightarrow> error + (measurement \<Rightarrow> bool)" where
  "end_filter cast end_date =
     (if truthy end_date then
        (case cast (the end_date) of
           None \<Rightarrow> Inl ValueError
         | Some t \<Rightarrow> Inr (\<lambda>row. m_measurement_time row \<le> t))
      else Inr (\<lambda>row. True))"

definition range_filter ::
  "(measurement \<Rightarrow> pyfloat) \<Rightarrow> real list option \<Rightarrow> error + (measurement \<Rightarrow> bool)" where
  "range_filter column rng =
     (if truthy rng then
        (case item (the rng) 0 of Inl e \<Rightarrow> Inl e | Inr lo \<Rightarrow>
         case item (the rng) 1 of Inl e \<Rightarrow> Inl e | Inr hi \<Rightarrow>
         Inr (\<lambda>row. sql_ge (column row) lo \<and> sql_le (column row) hi))
      else Inr (\<lambda>row. True))"

definition to_query_row :: "measurement \<Rightarrow> query_row" where
  "to_query_row result =
     \<lparr> q_time = m_measurement_time result,
       q_latitude = m_latitude result,
       q_longitude = m_longitude result,
       q_temperature = m_temperature result,
       q_salinity = m_salinity result,
       q_depth = m_depth result,
       q_platform_number = m_platform_number result,
       q_ocean_region = m_ocean_region result \<rparr>"

definition query_argo_data ::
  "(string \<Rightarrow> real option) \<Rightarrow> db_status \<Rightarrow> measurement list
     \<Rightarrow> string option \<Rightarrow> string option \<Rightarrow> string option
     \<Rightarrow> real list option \<Rightarrow> real list option \<Rightarrow> query_response" where
  "query_argo_data cast status table region start_date end_date temperature_range salinity_range =
     (if status = NoSession then Raised RuntimeError
      else
        case range_filter m_temperature temperature_range of Inl e \<Rightarrow> Failure | Inr f_temp \<Rightarrow>
        case range_filter m_salinity salinity_range of Inl e \<Rightarrow> Failure | Inr f_sal \<Rightarrow>
        case start_filter cast start_date of Inl e \<Rightarrow> Failure | Inr f_start \<Rightarrow>
        case end_filter cast end_date of Inl e \<Rightarrow> Failure | Inr f_end \<Rightarrow>
        if status = QueryError then Failure
        else (let results =
                    take 1000 (filter (\<lambda>row. region_filter region row \<and> f_start row \<and> f_end row
                                            \<and> f_temp row \<and> f_sal row) table);
                  data = map to_query_row results
              in Success (length data) data))"

section \<open>Example inputs\<close>

definition example_format :: float_format where
  "example_format = \<lparr> fmt2 = (\<lambda>x. ''0.00''), fmt0 = (\<lambda>x. ''0'') \<rparr>"

text \<open>One profile at 45 N, 100 W with three levels, the second without a temperature.\<close>

definition example_ds :: dataset where
  "example_ds =
     \<lparr> attr_platform_number = Some ''F1'', N_PROF = 1, CYCLE_NUMBER = [7],
       LATITUDE = [Val 45], LONGITUDE = [Val (-100)], JULD = [Days 20000],
       TEMP = [[Val 10, NaN, Val 8]],
       PSAL = [[Val 35, Val 35, Val 34]],
       PRES = [[Val 5, Val 50, Val 100]] \<rparr>"

text \<open>Three profiles: one of two levels valid, both levels valid, no level valid.\<close>

definition example_ds3 :: dataset where
  "example_ds3 =
     \<lparr> attr_platform_number = Some ''F1'', N_PROF = 3, CYCLE_NUMBER = [1, 2, 3],
       LATITUDE = [Val 45, Val 46, Val 47], LONGITUDE = [Val (-100), Val (-100), Val (-100)],
       JULD = [Days 20000, Days 20010, NaT],
       TEMP = [[Val 10, NaN], [Val 9, Val 8], [NaN, NaN]],
       PSAL = [[Val 35, Val 35], [Val 35, Val 34], [Val 35, Val 35]],
       PRES = [[Val 5, Val 50], [Val 5, Val 50], [Val 5, Val 50]] \<rparr>"


definition example_stop :: "string list" where
  "example_stop = [''the'', ''and'', ''in'', ''at'', ''with'', ''of'']"

definition example_env :: environment where
  "example_env = \<lparr> formatter = example_format,
                    stop_words = example_stop,
                    clock = (\<lambda>p. 27000), db_fault = (\<lambda>p. False) \<rparr>"

definition empty_pipeline :: pipeline where
  "empty_pipeline = \<lparr> db = \<lparr> argo_floats = [], argo_profiles = [] \<rparr>,
                       index = \<lparr> vectorizer = Unfitted, vector_store = [] \<rparr>, log = [] \<rparr>"

text \<open>An index of three entries, a profile without summary text, and a fresh processor.\<close>

definition example_metadata :: entry_metadata where
  "example_metadata =
     \<lparr> md_platform_number = ''F1'', md_ocean_region = ''North Atlantic'',
       md_latitude = Val 45, md_longitude = Val (-100), md_profile_date = 20000,
       md_temperature_range = \<lparr> r_min = Val 8, r_max = Val 10, r_mean = Val 9 \<rparr>,
       md_salinity_range = \<lparr> r_min = Val 34, r_max = Val 35, r_mean = Val (69 / 2) \<rparr> \<rparr>"

definition example_entry :: "real list \<Rightarrow> embedding_entry" where
  "example_entry v = \<lparr> e_vector = v, e_metadata = example_metadata, e_text = ''ARGO float'' \<rparr>"

definition example_index :: processor where
  "example_index =
     \<lparr> vectorizer = Fitted [''ocean'', ''warm''] [1, 1],
       vector_store = [(''A_1'', example_entry [0, 1]), (''B_1'', example_entry [1, 0]),
                       (''C_1'', example_entry [1, 0])] \<rparr>"

definition blank_profile :: profile where
  "blank_profile =
     \<lparr> p_id = ''F1_7'', p_platform_number = ''F1'', p_cycle_number = 7, p_profile_date = 20000,
       p_latitude = Val 45, p_longitude = Val (-100), p_max_depth = Val 100,
       p_num_measurements = 2,
       p_temperature_range = \<lparr> r_min = Val 8, r_max = Val 10, r_mean = Val 9 \<rparr>,
       p_salinity_range = \<lparr> r_min = Val 34, r_max = Val 35, r_mean = Val (69 / 2) \<rparr>,
       p_pressure_range = \<lparr> r_min = Val 5, r_max = Val 100, r_mean = Val (105 / 2) \<rparr>,
       p_ocean_region = ''North Atlantic'', p_data_quality_score = 2 / 3,
       p_summary_text = '''', p_file_source = ''d/a.nc'', p_processed_at = 27000,
       p_total_levels = 3, p_valid_levels = 2, p_vector_embedding = None \<rparr>"

definition fresh_processor :: processor where
  "fresh_processor = \<lparr> vectorizer = Unfitted, vector_store = [] \<rparr>"

text \<open>Two stored measurements, in different regions.\<close>

definition example_measurement :: measurement where
  "example_measurement =
     make_measurement ''d/a.nc'' ''F1'' 7 (Val 45) (Val (-100)) 20000 ''North Atlantic'' 0
       (Val 10) (Val 35) (Val 5)"

definition example_measurement2 :: measurement where
  "example_measurement2 =
     make_measurement ''d/b.nc'' ''F2'' 3 (Val (-20)) (Val 100) 20100 ''South Pacific'' 0
       (Val 10) (Val 35) (Val 5)"

section \<open>Properties\<close>

lemma fle_Val_left: "fle (Val a) x = (case x of Val r \<Rightarrow> a \<le> r | PInf \<Rightarrow> True | _ \<Rightarrow> False)"
  by (cases x) simp_all

lemma fle_Val_right: "fle x (Val b) = (case x of Val r \<Rightarrow> r \<le> b | NInf \<Rightarrow> True | _ \<Rightarrow> False)"
  by (cases x) simp_all

lemma flt_Val_left: "flt (Val a) x = (case x of Val r \<Rightarrow> a < r | PInf \<Rightarrow> True | _ \<Rightarrow> False)"
  by (cases x) simp_all

lemma flt_Val_right: "flt x (Val b) = (case x of Val r \<Rightarrow> r < b | NInf \<Rightarrow> True | _ \<Rightarrow> False)"
  by (cases x) simp_all

lemma in_closed_fle: "in_closed lo hi x = (fle (Val lo) x \<and> fle x (Val hi))"
  by (cases x) (simp_all add: in_closed_def)

lemma north_of_flt: "north_of b x = flt (Val b) x"
  by (cases x) (simp_all add: north_of_def)

lemma south_of_flt: "south_of b x = flt x (Val b)"
  by (cases x) (simp_all add: south_of_def)

lemma region_names_eq:
  "region_names = [''North Atlantic'', ''North Pacific'', ''South Atlantic'', ''South Pacific'',
     ''Indian Ocean'', ''Arctic Ocean'', ''Southern Ocean'', ''Unknown'']"
  by (simp add: region_names_def region_rules_def)

lemma first_match_region_rules:
  "first_match region_rules lat lon = Some (determine_ocean_region lat lon)"
  unfolding region_rules_def determine_ocean_region_def in_closed_fle north_of_flt south_of_flt
  by simp

text \<open>
  C2. For every pair (lat, lon), NaN and the infinities included, the classifier returns a value (it has no
  failing branch), the value is the name of the first rule of the ordered table 1 to 8 that
  matches, with inclusive bounds in the boxes, and it is one of the eight distinct region
  names.
\<close>

theorem C2_region_classifier:
  "first_match region_rules lat lon = Some (determine_ocean_region lat lon)
   \<and> determine_ocean_region lat lon \<in> set region_names
   \<and> distinct region_names \<and> length region_names = 8"
proof -
  have fm: "first_match region_rules lat lon = Some (determine_ocean_region lat lon)"
    by (rule first_match_region_rules)
  have mem: "determine_ocean_region lat lon \<in> set region_names"
    unfolding region_names_eq determine_ocean_region_def by simp
  have d: "distinct region_names" unfolding region_names_eq by simp
  have l: "length region_names = 8" unfolding region_names_eq by simp
  from fm mem d l show ?thesis by simp
qed

theorem C2_region_classifier_witness:
  "first_match region_rules (Val 10) (Val (-60)) = Some ''North Atlantic''
   \<and> determine_ocean_region (Val 10) (Val (-60)) = ''North Atlantic''
   \<and> determine_ocean_region (Val 10) (Val 20) = ''South Atlantic''
   \<and> determine_ocean_region (Val 5) (Val 60) = ''South Pacific''
   \<and> determine_ocean_region (Val 70) (Val 0) = ''Unknown''
   \<and> determine_ocean_region NaN NaN = ''Unknown''"
proof -
  have a: "determine_ocean_region (Val 10) (Val (-60)) = ''North Atlantic''"
    by (simp add: determine_ocean_region_def)
  have b: "determine_ocean_region (Val 10) (Val 20) = ''South Atlantic''"
    by (simp add: determine_ocean_region_def)
  have c: "determine_ocean_region (Val 5) (Val 60) = ''South Pacific''"
    by (simp add: determine_ocean_region_def)
  have d: "determine_ocean_region (Val 70) (Val 0) = ''Unknown''"
    by (simp add: determine_ocean_region_def)
  have e: "determine_ocean_region NaN NaN = ''Unknown''"
    by (simp add: determine_ocean_region_def)
  from C2_region_classifier [of "Val 10" "Val (-60)"] a b c d e show ?thesis by simp
qed

text \<open>The infinities in comparisons, in arithmetic and in the classifier.\<close>

lemma float_order_examples:
  "fle PInf PInf \<and> fle NInf NInf \<and> \<not> fle PInf (Val 1) \<and> fle (Val 1) PInf \<and> \<not> fle (Val 1) NInf
   \<and> fle NInf (Val 1) \<and> \<not> fle PInf NInf \<and> fle NInf PInf \<and> \<not> fle NaN PInf \<and> \<not> fle NInf NaN
   \<and> \<not> flt PInf PInf \<and> \<not> flt NInf NInf \<and> flt (Val 1) PInf \<and> \<not> flt PInf (Val 1)
   \<and> flt NInf (Val 1) \<and> \<not> flt (Val 1) NInf \<and> flt NInf PInf \<and> \<not> flt PInf NInf
   \<and> \<not> flt NaN PInf \<and> \<not> flt NInf NaN"
  by simp

lemma float_arith_examples:
  "fmul PInf (Val (1019716 / 1000000)) = PInf \<and> fmul NInf (Val 2) = NInf \<and> fmul PInf (Val 0) = NaN
   \<and> fmul (Val (-1)) PInf = NInf \<and> fadd PInf NInf = NaN \<and> fadd PInf (Val 1) = PInf
   \<and> fadd (Val 1) NInf = NInf \<and> fadd NInf NInf = NInf \<and> fadd NaN PInf = NaN"
  by (simp add: inf_times_def)

lemma region_at_infinity:
  "determine_ocean_region PInf (Val 0) = ''Arctic Ocean''
   \<and> determine_ocean_region NInf (Val 0) = ''Southern Ocean''
   \<and> determine_ocean_region (Val 20) PInf = ''Unknown''
   \<and> determine_ocean_region (Val 20) NInf = ''Unknown''"
  by (simp add: determine_ocean_region_def)

subsection \<open>The decoder\<close>

lemma level_loop_eq:
  "level_loop mk temps sals pres is valid =
     (if \<forall>i\<in>set is. i < length temps \<and> i < length sals \<and> i < length pres
      then Inr (valid @ map (\<lambda>i. mk i (temps ! i) (sals ! i) (pres ! i))
            (filter (\<lambda>i. \<not> (isnan (temps ! i) \<or> isnan (sals ! i) \<or> isnan (pres ! i))) is))
      else Inl IndexError)"
  by (induction "is" arbitrary: valid) (simp_all add: Let_def)

lemma level_loop_range:
  "level_loop mk temps sals pres [0..<length temps] [] =
     (if length temps \<le> length sals \<and> length temps \<le> length pres
      then Inr (map (\<lambda>i. mk i (temps ! i) (sals ! i) (pres ! i)) (valid_levels temps sals pres))
      else Inl IndexError)"
proof -
  have "(\<forall>i\<in>set [0..<length temps]. i < length temps \<and> i < length sals \<and> i < length pres)
        = (length temps \<le> length sals \<and> length temps \<le> length pres)"
    by (auto simp: not_le [symmetric] intro: leI)
  then show ?thesis
    unfolding level_loop_eq valid_levels_def by simp
qed

lemma process_cycle_eq:
  "process_cycle fm now file_path ds platform_number i st =
     (if row_ok ds i then
        Inr (fst st @ cycle_measurements now file_path ds platform_number i,
             (case cycle_profile fm now file_path ds platform_number i of
                None \<Rightarrow> snd st | Some p \<Rightarrow> Some p))
      else Inl IndexError)"
  unfolding process_cycle_def cycle_profile_def cycle_measurements_def row_ok_def
  by (simp add: item_def level_loop_range Let_def split: list.splits)

lemma cycle_loop_eq:
  "cycle_loop fm now file_path ds platform_number is st =
     (if \<forall>i\<in>set is. row_ok ds i then
        Inr (fst st @ concat (map (cycle_measurements now file_path ds platform_number) is),
             fold (\<lambda>i pd. case cycle_profile fm now file_path ds platform_number i of
                             None \<Rightarrow> pd | Some p \<Rightarrow> Some p) is (snd st))
      else Inl IndexError)"
  by (induction "is" arbitrary: st) (simp_all add: process_cycle_eq)

lemma length_cycle_measurements:
  "length (cycle_measurements now file_path ds platform_number i) =
     length (valid_levels (TEMP ds ! i) (PSAL ds ! i) (PRES ds ! i))"
  by (simp add: cycle_measurements_def)

lemma cycle_profile_None:
  "valid_levels (TEMP ds ! i) (PSAL ds ! i) (PRES ds ! i) = [] \<Longrightarrow>
   cycle_profile fm now file_path ds platform_number i = None"
  by (simp add: cycle_profile_def cycle_measurements_def)

lemma cycle_profile_Some:
  assumes "valid_levels (TEMP ds ! i) (PSAL ds ! i) (PRES ds ! i) \<noteq> []"
  shows "\<exists>p. cycle_profile fm now file_path ds platform_number i = Some p
     \<and> p_data_quality_score p =
         real (length (valid_levels (TEMP ds ! i) (PSAL ds ! i) (PRES ds ! i)))
           / real (length (TEMP ds ! i))
     \<and> p_num_measurements p = length (valid_levels (TEMP ds ! i) (PSAL ds ! i) (PRES ds ! i))
     \<and> p_total_levels p = length (TEMP ds ! i)
     \<and> p_cycle_number p = CYCLE_NUMBER ds ! i"
proof -
  obtain m ms where ms: "cycle_measurements now file_path ds platform_number i = m # ms"
    using assms by (cases "cycle_measurements now file_path ds platform_number i")
      (simp_all add: cycle_measurements_def)
  have "length (m # ms) = length (valid_levels (TEMP ds ! i) (PSAL ds ! i) (PRES ds ! i))"
    using length_cycle_measurements [of now file_path ds platform_number i] ms by simp
  then show ?thesis
    by (simp add: cycle_profile_def ms make_profile_def)
qed

lemma example_ds_valid_levels:
  "valid_levels (TEMP example_ds ! 0) (PSAL example_ds ! 0) (PRES example_ds ! 0) = [0, 2]"
  by (simp add: example_ds_def valid_levels_def upt_rec)

lemma fold_last_profile:
  "fold (\<lambda>i pd. case f i of None \<Rightarrow> pd | Some p \<Rightarrow> Some p) is pd0 =
     (case filter (\<lambda>i. f i \<noteq> None) is of [] \<Rightarrow> pd0 | q # qs \<Rightarrow> f (last (q # qs)))"
proof (induction "is" arbitrary: pd0)
  case Nil
  show ?case by simp
next
  case (Cons i "is")
  show ?case
  proof (cases "f i")
    case None
    then show ?thesis using Cons.IH [of pd0] by simp
  next
    case (Some p)
    then show ?thesis using Cons.IH [of "Some p"] by (simp split: list.splits)
  qed
qed

lemma cycle_profile_eq_None:
  "(cycle_profile fm now file_path ds platform_number i = None)
     = (valid_levels (TEMP ds ! i) (PSAL ds ! i) (PRES ds ! i) = [])"
  by (cases "valid_levels (TEMP ds ! i) (PSAL ds ! i) (PRES ds ! i)")
     (simp_all add: cycle_profile_def cycle_measurements_def)

lemma well_shaped_iff: "well_shaped ds = (\<forall>i<N_PROF ds. row_ok ds i)"
  by (auto simp: well_shaped_def list_all_iff)

lemma process_netcdf_file_eq:
  "process_netcdf_file fm now file_path (Dataset ds) =
     (if well_shaped ds then
        (concat (map (cycle_measurements now file_path ds (platform_number_of ds)) [0..<N_PROF ds]),
         (case qualifying ds of
            [] \<Rightarrow> None
          | q # qs \<Rightarrow> cycle_profile fm now file_path ds (platform_number_of ds) (last (q # qs))))
      else ([], None))"
proof -
  have q: "filter (\<lambda>i. cycle_profile fm now file_path ds (platform_number_of ds) i \<noteq> None)
             [0..<N_PROF ds] = qualifying ds"
    by (simp add: qualifying_def cycle_profile_eq_None)
  have cl: "cycle_loop fm now file_path ds (platform_number_of ds) [0..<N_PROF ds] ([], None) =
     (if \<forall>i<N_PROF ds. row_ok ds i then
        Inr (concat (map (cycle_measurements now file_path ds (platform_number_of ds)) [0..<N_PROF ds]),
             (case qualifying ds of
                [] \<Rightarrow> None
              | q # qs \<Rightarrow> cycle_profile fm now file_path ds (platform_number_of ds) (last (q # qs))))
      else Inl IndexError)"
    using q by (auto simp: cycle_loop_eq fold_last_profile)
  show ?thesis
    by (cases "\<forall>i<N_PROF ds. row_ok ds i") (auto simp: process_netcdf_file_def cl well_shaped_iff)
qed

text \<open>
  C10. For a file whose rows can all be read and in which two or more profiles have a
  valid level, \<open>process_netcdf_file\<close> returns the measurements of all profiles, those of
  every qualifying profile among them, and one profile summary: the one built for the last
  profile index that has a valid level. The result has a single slot for the summary, so
  the summaries built for earlier indices are not part of it.
\<close>

theorem C10_last_profile_only:
  assumes shaped: "well_shaped ds"
    and two: "2 \<le> length (qualifying ds)"
  shows "\<exists>p. process_netcdf_file fm now file_path (Dataset ds) =
           (concat (map (cycle_measurements now file_path ds (platform_number_of ds)) [0..<N_PROF ds]),
            Some p)
       \<and> cycle_profile fm now file_path ds (platform_number_of ds) (last (qualifying ds)) = Some p
       \<and> p_cycle_number p = CYCLE_NUMBER ds ! last (qualifying ds)
       \<and> (\<forall>i\<in>set (qualifying ds).
             set (cycle_measurements now file_path ds (platform_number_of ds) i)
               \<subseteq> set (fst (process_netcdf_file fm now file_path (Dataset ds))))"
proof -
  from two obtain q qs where qq: "qualifying ds = q # qs"
    by (cases "qualifying ds") simp_all
  have "last (qualifying ds) \<in> set (qualifying ds)"
    using qq by (metis last_in_set list.distinct(1))
  then have v: "valid_levels (TEMP ds ! last (qualifying ds)) (PSAL ds ! last (qualifying ds))
                  (PRES ds ! last (qualifying ds)) \<noteq> []"
    by (simp add: qualifying_def)
  from cycle_profile_Some [OF v, of fm now file_path "platform_number_of ds"]
  obtain p where p: "cycle_profile fm now file_path ds (platform_number_of ds) (last (qualifying ds)) = Some p"
    "p_cycle_number p = CYCLE_NUMBER ds ! last (qualifying ds)" by blast
  have sub: "set (qualifying ds) \<subseteq> set [0..<N_PROF ds]"
    by (auto simp: qualifying_def)
  have res: "process_netcdf_file fm now file_path (Dataset ds) =
           (concat (map (cycle_measurements now file_path ds (platform_number_of ds)) [0..<N_PROF ds]),
            Some p)"
    using shaped p(1) qq by (simp add: process_netcdf_file_eq)
  show ?thesis
    using res p sub by (auto simp: qualifying_def)
qed

lemma example_ds3_valid:
  "valid_levels (TEMP example_ds3 ! 0) (PSAL example_ds3 ! 0) (PRES example_ds3 ! 0) = [0]"
  "valid_levels (TEMP example_ds3 ! Suc 0) (PSAL example_ds3 ! Suc 0) (PRES example_ds3 ! Suc 0)
     = [0, 1]"
  "valid_levels (TEMP example_ds3 ! 2) (PSAL example_ds3 ! 2) (PRES example_ds3 ! 2) = []"
  by (simp_all add: example_ds3_def valid_levels_def upt_rec)

lemma example_ds3_upt: "[0..<N_PROF example_ds3] = [0, Suc 0, 2]"
  by (simp add: example_ds3_def upt_rec)

lemma example_ds3_qualifying: "qualifying example_ds3 = [0, Suc 0]"
  unfolding qualifying_def example_ds3_upt by (simp add: example_ds3_valid)

lemma example_ds3_shaped: "well_shaped example_ds3"
  unfolding well_shaped_def example_ds3_upt by (simp add: row_ok_def example_ds3_def)

theorem C10_last_profile_only_witness:
  "well_shaped example_ds3 \<and> 2 \<le> length (qualifying example_ds3)
   \<and> (\<exists>ms p. process_netcdf_file example_format 0 ''d/a.nc'' (Dataset example_ds3) = (ms, Some p)
          \<and> length ms = 3 \<and> p_cycle_number p = 2)"
proof -
  have two: "2 \<le> length (qualifying example_ds3)"
    by (simp add: example_ds3_qualifying)
  have len: "length (concat (map (cycle_measurements 0 ''d/a.nc'' example_ds3
                 (platform_number_of example_ds3)) [0..<N_PROF example_ds3])) = 3"
    unfolding example_ds3_upt by (simp add: length_cycle_measurements example_ds3_valid)
  have cyc: "CYCLE_NUMBER example_ds3 ! last (qualifying example_ds3) = 2"
    unfolding example_ds3_qualifying by (simp add: example_ds3_def)
  from C10_last_profile_only [OF example_ds3_shaped two, of example_format 0 "''d/a.nc''"]
  obtain p where
    "process_netcdf_file example_format 0 ''d/a.nc'' (Dataset example_ds3) =
       (concat (map (cycle_measurements 0 ''d/a.nc'' example_ds3
                 (platform_number_of example_ds3)) [0..<N_PROF example_ds3]), Some p)"
    "p_cycle_number p = CYCLE_NUMBER example_ds3 ! last (qualifying example_ds3)"
    by blast
  with len cyc example_ds3_shaped two show ?thesis by auto
qed

subsection \<open>What the decoder returns for a file\<close>








subsection \<open>The store\<close>

lemma keys_merge_float:
  "map fst (merge_float m tbl) =
     (if m_id m \<in> set (map fst tbl) then map fst tbl else map fst tbl @ [m_id m])"
  by (simp add: merge_float_def update_keys)

lemma keys_merge_profile:
  "map fst (merge_profile p tbl) =
     (if p_id p \<in> set (map fst tbl) then map fst tbl else map fst tbl @ [p_id p])"
  by (simp add: merge_profile_def update_keys)

lemma keys_fold_present:
  "set (map m_id fd) \<subseteq> set (map fst tbl) \<Longrightarrow> map fst (fold merge_float fd tbl) = map fst tbl"
proof (induction fd arbitrary: tbl)
  case Nil
  show ?case by simp
next
  case (Cons m fd)
  have k: "map fst (merge_float m tbl) = map fst tbl"
    using Cons.prems by (simp add: keys_merge_float)
  have "set (map m_id fd) \<subseteq> set (map fst (merge_float m tbl))"
    using Cons.prems k by simp
  from Cons.IH [OF this] k show ?case by simp
qed

lemma keys_fold_grow:
  "set (map fst tbl) \<union> set (map m_id fd) \<subseteq> set (map fst (fold merge_float fd tbl))"
proof (induction fd arbitrary: tbl)
  case Nil
  show ?case by simp
next
  case (Cons m fd)
  have a: "set (map fst tbl) \<union> {m_id m} \<subseteq> set (map fst (merge_float m tbl))"
    unfolding keys_merge_float by auto
  have b: "set (map fst (merge_float m tbl)) \<union> set (map m_id fd)
             \<subseteq> set (map fst (fold merge_float fd (merge_float m tbl)))"
    by (rule Cons.IH)
  have c: "set (map m_id (m # fd)) = {m_id m} \<union> set (map m_id fd)"
    by simp
  have d: "fold merge_float (m # fd) tbl = fold merge_float fd (merge_float m tbl)"
    by simp
  show ?case unfolding c d using a b by blast
qed

lemma ids_cycle_measurements:
  "map m_id (cycle_measurements now file_path ds platform_number i) =
   map m_id (cycle_measurements now' file_path ds platform_number i)"
  by (simp add: cycle_measurements_def make_measurement_def)

lemma id_cycle_profile:
  "map_option p_id (cycle_profile fm now file_path ds platform_number i) =
   map_option p_id (cycle_profile fm' now' file_path ds platform_number i)"
  by (cases "valid_levels (TEMP ds ! i) (PSAL ds ! i) (PRES ds ! i)")
     (simp_all add: cycle_profile_def cycle_measurements_def make_profile_def)

lemma decode_ids:
  "map m_id (fst (process_netcdf_file fm now file_path nc)) =
     map m_id (fst (process_netcdf_file fm' now' file_path nc))
   \<and> map_option p_id (snd (process_netcdf_file fm now file_path nc)) =
     map_option p_id (snd (process_netcdf_file fm' now' file_path nc))"
proof (cases nc)
  case Unreadable
  then show ?thesis by (simp add: process_netcdf_file_def)
next
  case (Dataset ds)
  have m: "map m_id (concat (map (cycle_measurements now file_path ds (platform_number_of ds)) is))
         = map m_id (concat (map (cycle_measurements now' file_path ds (platform_number_of ds)) is))"
    for "is"
    by (induction "is") (simp_all add: ids_cycle_measurements [of now _ _ _ _ now'])
  show ?thesis
    unfolding Dataset process_netcdf_file_eq
    using m id_cycle_profile [of fm now file_path ds "platform_number_of ds" _ fm' now']
    by (simp split: list.splits)
qed

lemma db_process_one:
  "db (process_one env directory_path st nc) =
     (let file_path = directory_path @ ''/'' @ fst nc;
          res = process_netcdf_file (formatter env) (clock env file_path) file_path (snd nc)
      in if fst res \<noteq> [] \<and> \<not> db_fault env file_path
         then upsert_batch (db st) (fst res) (snd res) else db st)"
  by (simp add: process_one_def store_to_postgresql_def upsert_batch_def Let_def
           split: prod.splits)

lemma upsert_batch_twice_keys:
  assumes "map m_id fd2 = map m_id fd1" "map_option p_id pd2 = map_option p_id pd1"
  shows "primary_keys (upsert_batch (upsert_batch s fd1 pd1) fd2 pd2)
           = primary_keys (upsert_batch s fd1 pd1)"
proof -
  have "set (map m_id fd2) \<subseteq> set (map fst (fold merge_float fd1 (argo_floats s)))"
    using keys_fold_grow [of "argo_floats s" fd1] assms(1) by simp
  then have f: "map fst (fold merge_float fd2 (fold merge_float fd1 (argo_floats s)))
                  = map fst (fold merge_float fd1 (argo_floats s))"
    by (rule keys_fold_present)
  show ?thesis
    using f assms(2)
    by (cases pd1; cases pd2) (auto simp: primary_keys_def upsert_batch_def keys_merge_profile)
qed

lemma example_ds_decoded_ids:
  "map m_id (fst (process_netcdf_file fm now ''d/a.nc'' (Dataset example_ds))) = [''F1_7_0'', ''F1_7_2'']
   \<and> map_option p_id (snd (process_netcdf_file fm now ''d/a.nc'' (Dataset example_ds))) = Some ''F1_7''"
proof -
  have w: "well_shaped example_ds"
    by (simp add: well_shaped_def row_ok_def example_ds_def upt_rec)
  have u: "[0..<N_PROF example_ds] = [0]"
    by (simp add: example_ds_def upt_rec)
  have q: "qualifying example_ds = [0]"
    unfolding qualifying_def u by (simp add: example_ds_valid_levels)
  have s: "str_int 7 = ''7''" "str_nat 0 = ''0''" "str_nat 2 = ''2''"
    by (simp_all add: str_int_def str_nat.simps)
  have c: "CYCLE_NUMBER example_ds ! 0 = 7" "platform_number_of example_ds = ''F1''"
    by (simp_all add: example_ds_def platform_number_of_def)
  show ?thesis
    unfolding process_netcdf_file_eq u q
    by (simp add: w cycle_profile_def cycle_measurements_def example_ds_valid_levels
          make_measurement_def make_profile_def c s)
qed

lemma map_of_merge_float: "map_of (merge_float m tbl) = (map_of tbl)(m_id m \<mapsto> m)"
  by (simp add: merge_float_def update_conv')

lemma map_of_merge_profile: "map_of (merge_profile p tbl) = (map_of tbl)(p_id p \<mapsto> p)"
  by (simp add: merge_profile_def update_conv')

lemma map_of_fold_merge:
  "map_of (fold merge_float fd tbl) = map_of tbl ++ map_of (rev (map (\<lambda>m. (m_id m, m)) fd))"
proof (induction fd arbitrary: tbl)
  case Nil
  show ?case by simp
next
  case (Cons m fd)
  have f: "fold merge_float (m # fd) tbl = fold merge_float fd (merge_float m tbl)"
    by simp
  have "map_of (fold merge_float (m # fd) tbl)
          = (map_of tbl)(m_id m \<mapsto> m) ++ map_of (rev (map (\<lambda>m. (m_id m, m)) fd))"
    unfolding f Cons.IH [of "merge_float m tbl"] map_of_merge_float ..
  also have "\<dots> = map_of tbl ++ map_of (rev (map (\<lambda>m. (m_id m, m)) (m # fd)))"
    by (rule ext) (simp add: map_add_def split: option.splits)
  finally show ?case .
qed

lemma upsert_batch_rows:
  "map_of (argo_floats (upsert_batch s fd pd))
     = map_of (argo_floats s) ++ map_of (rev (map (\<lambda>m. (m_id m, m)) fd))
   \<and> (\<forall>p. pd = Some p \<longrightarrow> map_of (argo_profiles (upsert_batch s fd pd)) (p_id p) = Some p)"
  by (simp add: upsert_batch_def map_of_fold_merge map_of_merge_profile)

text \<open>
  C7. Processing the same file a second time, at any later clock reading, leaves both
  tables with the primary keys, and so the row counts, they had after the first time: no
  row is added. When the second batch is committed its rows replace the stored ones: each
  key of the file then holds the measurement of the second decoding (the last one, should
  a key occur twice in the file), rows of other keys are untouched, and the profile row
  is the profile of the second decoding.
\<close>

theorem C7_reingest_overwrites:
  "primary_keys (db (process_one (env \<lparr> clock := later \<rparr>) directory_path
                       (process_one env directory_path st nc) nc))
     = primary_keys (db (process_one env directory_path st nc))
   \<and> row_counts (db (process_one (env \<lparr> clock := later \<rparr>) directory_path
                       (process_one env directory_path st nc) nc))
     = row_counts (db (process_one env directory_path st nc))
   \<and> (fst (process_netcdf_file (formatter env) (later (directory_path @ ''/'' @ fst nc))
              (directory_path @ ''/'' @ fst nc) (snd nc)) \<noteq> []
        \<and> \<not> db_fault env (directory_path @ ''/'' @ fst nc)
       \<longrightarrow> map_of (argo_floats (db (process_one (env \<lparr> clock := later \<rparr>) directory_path
                       (process_one env directory_path st nc) nc)))
             = map_of (argo_floats (db (process_one env directory_path st nc)))
               ++ map_of (rev (map (\<lambda>m. (m_id m, m))
                    (fst (process_netcdf_file (formatter env)
                            (later (directory_path @ ''/'' @ fst nc))
                            (directory_path @ ''/'' @ fst nc) (snd nc)))))
         \<and> (\<forall>p. snd (process_netcdf_file (formatter env) (later (directory_path @ ''/'' @ fst nc))
                        (directory_path @ ''/'' @ fst nc) (snd nc)) = Some p
               \<longrightarrow> map_of (argo_profiles (db (process_one (env \<lparr> clock := later \<rparr>) directory_path
                       (process_one env directory_path st nc) nc))) (p_id p) = Some p))"
proof -
  define file_path where "file_path = directory_path @ ''/'' @ fst nc"
  define r1 where "r1 = process_netcdf_file (formatter env) (clock env file_path) file_path (snd nc)"
  define r2 where "r2 = process_netcdf_file (formatter env) (later file_path) file_path (snd nc)"
  define s1 where "s1 = process_one env directory_path st nc"
  define s2 where "s2 = process_one (env \<lparr> clock := later \<rparr>) directory_path s1 nc"
  have ids: "map m_id (fst r2) = map m_id (fst r1)" "map_option p_id (snd r2) = map_option p_id (snd r1)"
    using decode_ids [of "formatter env" "later file_path" file_path "snd nc" "formatter env"
        "clock env file_path"]
    by (simp_all add: r1_def r2_def)
  from ids(1) have emp: "(fst r2 = []) = (fst r1 = [])"
    by (metis map_is_Nil_conv)
  have d1: "db s1 =
      (if fst r1 \<noteq> [] \<and> \<not> db_fault env file_path
       then upsert_batch (db st) (fst r1) (snd r1) else db st)"
    by (simp add: s1_def db_process_one Let_def r1_def file_path_def)
  have d2: "db s2 =
      (if fst r2 \<noteq> [] \<and> \<not> db_fault env file_path
       then upsert_batch (db s1) (fst r2) (snd r2) else db s1)"
    by (simp add: s2_def db_process_one Let_def r2_def file_path_def)
  have k: "primary_keys (db s2) = primary_keys (db s1)"
    unfolding d2 d1 using emp upsert_batch_twice_keys [OF ids] by simp
  have "row_counts s = (length (fst (primary_keys s)), length (snd (primary_keys s)))" for s
    by (simp add: row_counts_def primary_keys_def)
  with k have c: "row_counts (db s2) = row_counts (db s1)" by simp
  have o: "map_of (argo_floats (db s2))
             = map_of (argo_floats (db s1)) ++ map_of (rev (map (\<lambda>m. (m_id m, m)) (fst r2)))
         \<and> (\<forall>p. snd r2 = Some p \<longrightarrow> map_of (argo_profiles (db s2)) (p_id p) = Some p)"
    if "fst r2 \<noteq> [] \<and> \<not> db_fault env file_path"
  proof -
    from that have "db s2 = upsert_batch (db s1) (fst r2) (snd r2)"
      unfolding d2 by (rule if_P)
    then show ?thesis
      using upsert_batch_rows [of "db s1" "fst r2" "snd r2"] by simp
  qed
  from k c o show ?thesis
    unfolding s2_def s1_def r2_def file_path_def by blast
qed

lemma example_ds_decoded:
  "\<exists>m1 m2 p. process_netcdf_file example_format now ''d/a.nc'' (Dataset example_ds)
                 = ([m1, m2], Some p)
     \<and> m_id m1 = ''F1_7_0'' \<and> m_id m2 = ''F1_7_2'' \<and> p_id p = ''F1_7'' \<and> p_processed_at p = now"
proof -
  have w: "well_shaped example_ds"
    by (simp add: well_shaped_def row_ok_def example_ds_def upt_rec)
  have u: "[0..<N_PROF example_ds] = [0]"
    by (simp add: example_ds_def upt_rec)
  have q: "qualifying example_ds = [0]"
    unfolding qualifying_def u by (simp add: example_ds_valid_levels)
  have s: "str_int 7 = ''7''" "str_nat 0 = ''0''" "str_nat 2 = ''2''"
    by (simp_all add: str_int_def str_nat.simps)
  have c: "CYCLE_NUMBER example_ds ! 0 = 7" "platform_number_of example_ds = ''F1''"
    by (simp_all add: example_ds_def platform_number_of_def)
  show ?thesis
    unfolding process_netcdf_file_eq u q
    by (simp add: w cycle_profile_def cycle_measurements_def example_ds_valid_levels
          make_measurement_def make_profile_def c s)
qed

theorem C7_reingest_overwrites_witness:
  "row_counts (db (process_one example_env ''d'' empty_pipeline (''a.nc'', Dataset example_ds))) = (2, 1)
   \<and> row_counts (db (process_one (example_env \<lparr> clock := (\<lambda>p. 27001) \<rparr>) ''d''
                      (process_one example_env ''d'' empty_pipeline (''a.nc'', Dataset example_ds))
                      (''a.nc'', Dataset example_ds))) = (2, 1)
   \<and> map_option p_processed_at
        (map_of (argo_profiles (db (process_one example_env ''d'' empty_pipeline
                   (''a.nc'', Dataset example_ds)))) ''F1_7'') = Some 27000
   \<and> map_option p_processed_at
        (map_of (argo_profiles (db (process_one (example_env \<lparr> clock := (\<lambda>p. 27001) \<rparr>) ''d''
                      (process_one example_env ''d'' empty_pipeline (''a.nc'', Dataset example_ds))
                      (''a.nc'', Dataset example_ds)))) ''F1_7'') = Some 27001"
proof -
  from example_ds_decoded [of 27000] obtain m1 m2 p where
    r1: "process_netcdf_file example_format 27000 ''d/a.nc'' (Dataset example_ds) = ([m1, m2], Some p)"
    and i1: "m_id m1 = ''F1_7_0''" "m_id m2 = ''F1_7_2''" "p_id p = ''F1_7''" "p_processed_at p = 27000"
    by blast
  from example_ds_decoded [of 27001] obtain n1 n2 q where
    r2: "process_netcdf_file example_format 27001 ''d/a.nc'' (Dataset example_ds) = ([n1, n2], Some q)"
    and i2: "p_id q = ''F1_7''" "p_processed_at q = 27001"
    by blast
  have once: "row_counts (db (process_one example_env ''d'' empty_pipeline (''a.nc'', Dataset example_ds))) = (2, 1)"
    by (simp add: db_process_one example_env_def empty_pipeline_def r1 i1 upsert_batch_def
          row_counts_def merge_float_def merge_profile_def)
  have first: "map_option p_processed_at
        (map_of (argo_profiles (db (process_one example_env ''d'' empty_pipeline
                   (''a.nc'', Dataset example_ds)))) ''F1_7'') = Some 27000"
    by (simp add: db_process_one example_env_def empty_pipeline_def r1 i1 upsert_batch_def
          merge_float_def merge_profile_def)
  note t = C7_reingest_overwrites [where env = example_env and later = "\<lambda>p. 27001"
      and directory_path = "''d''" and st = empty_pipeline and nc = "(''a.nc'', Dataset example_ds)"]
  have pre: "fst (process_netcdf_file (formatter example_env) ((\<lambda>p. 27001) (''d'' @ ''/'' @ fst (''a.nc'', Dataset example_ds)))
              (''d'' @ ''/'' @ fst (''a.nc'', Dataset example_ds)) (snd (''a.nc'', Dataset example_ds))) \<noteq> []
        \<and> \<not> db_fault example_env (''d'' @ ''/'' @ fst (''a.nc'', Dataset example_ds))"
    by (simp add: example_env_def r2)
  have sq: "snd (process_netcdf_file (formatter example_env) ((\<lambda>p. 27001) (''d'' @ ''/'' @ fst (''a.nc'', Dataset example_ds)))
              (''d'' @ ''/'' @ fst (''a.nc'', Dataset example_ds)) (snd (''a.nc'', Dataset example_ds))) = Some q"
    by (simp add: example_env_def r2)
  from t pre sq have "map_of (argo_profiles (db (process_one (example_env \<lparr> clock := (\<lambda>p. 27001) \<rparr>) ''d''
                      (process_one example_env ''d'' empty_pipeline (''a.nc'', Dataset example_ds))
                      (''a.nc'', Dataset example_ds)))) (p_id q) = Some q"
    by blast
  then have second: "map_option p_processed_at
        (map_of (argo_profiles (db (process_one (example_env \<lparr> clock := (\<lambda>p. 27001) \<rparr>) ''d''
                      (process_one example_env ''d'' empty_pipeline (''a.nc'', Dataset example_ds))
                      (''a.nc'', Dataset example_ds)))) ''F1_7'') = Some 27001"
    by (simp add: i2)
  from t once have twice: "row_counts (db (process_one (example_env \<lparr> clock := (\<lambda>p. 27001) \<rparr>) ''d''
                      (process_one example_env ''d'' empty_pipeline (''a.nc'', Dataset example_ds))
                      (''a.nc'', Dataset example_ds))) = (2, 1)"
    by simp
  from once twice first second show ?thesis by simp
qed

subsection \<open>Directory processing\<close>

lemma index_process_one:
  "index (process_one env directory_path st nc) =
     (let file_path = directory_path @ ''/'' @ fst nc;
          res = process_netcdf_file (formatter env) (clock env file_path) file_path (snd nc)
      in if fst res \<noteq> [] \<and> \<not> db_fault env file_path
         then fst (store_to_vector_database (stop_words env) (index st) (snd res)) else index st)"
  by (simp add: process_one_def store_to_postgresql_def Let_def split: prod.splits)

lemma log_process_one:
  "length (log (process_one env directory_path st nc)) = Suc (length (log st))"
  by (simp add: process_one_def store_to_postgresql_def Let_def split: prod.splits)

lemma data_process_one_cong:
  "data_of s = data_of s' \<Longrightarrow>
   data_of (process_one env directory_path s nc) = data_of (process_one env directory_path s' nc)"
  by (simp add: data_of_def db_process_one index_process_one Let_def)

lemma data_fold_cong:
  "data_of s = data_of s' \<Longrightarrow>
   data_of (fold (\<lambda>nc s. process_one env directory_path s nc) ncs s)
     = data_of (fold (\<lambda>nc s. process_one env directory_path s nc) ncs s')"
proof (induction ncs arbitrary: s s')
  case Nil
  then show ?case by simp
next
  case (Cons nc ncs)
  have "data_of (process_one env directory_path s nc) = data_of (process_one env directory_path s' nc)"
    by (rule data_process_one_cong [OF Cons.prems])
  from Cons.IH [OF this] show ?case by simp
qed

lemma log_fold:
  "length (log (fold (\<lambda>nc s. process_one env directory_path s nc) ncs s))
     = length (log s) + length ncs"
  by (induction ncs arbitrary: s) (simp_all add: log_process_one)

lemma decode_fails_empty:
  assumes "decode_fails env directory_path nc"
  shows "process_netcdf_file (formatter env) (clock env (directory_path @ ''/'' @ fst nc))
           (directory_path @ ''/'' @ fst nc) (snd nc) = ([], None)"
proof (cases "snd nc")
  case Unreadable
  then show ?thesis by (simp add: process_netcdf_file_def)
next
  case (Dataset ds)
  with assms show ?thesis
    by (auto simp: decode_fails_def process_netcdf_file_def isl_def)
qed

lemma bad_file_no_data:
  assumes "decode_fails env directory_path nc \<or> db_fault env (directory_path @ ''/'' @ fst nc)"
  shows "data_of (process_one env directory_path s nc) = data_of s"
proof -
  have skip: "fst (process_netcdf_file (formatter env) (clock env (directory_path @ ''/'' @ fst nc))
                 (directory_path @ ''/'' @ fst nc) (snd nc)) = []
              \<or> db_fault env (directory_path @ ''/'' @ fst nc)"
  proof (cases "decode_fails env directory_path nc")
    case True
    from decode_fails_empty [OF True] show ?thesis by simp
  next
    case False
    with assms show ?thesis by simp
  qed
  have no: "\<not> (fst (process_netcdf_file (formatter env)
                 (clock env (directory_path @ ''/'' @ fst nc))
                 (directory_path @ ''/'' @ fst nc) (snd nc)) \<noteq> []
              \<and> \<not> db_fault env (directory_path @ ''/'' @ fst nc))"
  proof
    assume "fst (process_netcdf_file (formatter env)
                 (clock env (directory_path @ ''/'' @ fst nc))
                 (directory_path @ ''/'' @ fst nc) (snd nc)) \<noteq> []
              \<and> \<not> db_fault env (directory_path @ ''/'' @ fst nc)"
    with skip show False by simp
  qed
  have d: "db (process_one env directory_path s nc) = db s"
    unfolding db_process_one Let_def by (rule if_not_P [OF no])
  have i: "index (process_one env directory_path s nc) = index s"
    unfolding index_process_one Let_def by (rule if_not_P [OF no])
  from d i show ?thesis by (simp add: data_of_def)
qed

text \<open>
  C5. On a directory that does not exist \<open>process_directory\<close> logs the condition and
  changes neither the store nor the index. On an existing directory it returns a state
  after one log line per file (no file stops the loop), and a file whose decoding raises
  or whose store transaction fails contributes nothing: the store and the index are what
  they would be had the file not been in the directory.
\<close>

theorem C5_directory_isolation:
  "data_of (process_directory env st directory_path None) = data_of st
   \<and> log (process_directory env st directory_path None)
       = log st @ [LogError (''Directory '' @ directory_path @ '' does not exist'')]
   \<and> length (log (process_directory env st directory_path (Some ncs)))
       = length (log st) + 1 + length ncs
   \<and> (decode_fails env directory_path nc \<or> db_fault env (directory_path @ ''/'' @ fst nc)
        \<longrightarrow> data_of (process_one env directory_path s nc) = data_of s
          \<and> data_of (process_directory env st directory_path (Some (before @ nc # after)))
              = data_of (process_directory env st directory_path (Some (before @ after))))"
proof -
  have a: "data_of (process_directory env st directory_path None) = data_of st"
    by (simp add: process_directory_def data_of_def)
  have b: "log (process_directory env st directory_path None)
       = log st @ [LogError (''Directory '' @ directory_path @ '' does not exist'')]"
    by (simp add: process_directory_def)
  have c: "length (log (process_directory env st directory_path (Some ncs)))
       = length (log st) + 1 + length ncs"
    by (simp add: process_directory_def log_fold)
  have d: "data_of (process_one env directory_path s nc) = data_of s
          \<and> data_of (process_directory env st directory_path (Some (before @ nc # after)))
              = data_of (process_directory env st directory_path (Some (before @ after)))"
    if bad: "decode_fails env directory_path nc \<or> db_fault env (directory_path @ ''/'' @ fst nc)"
  proof -
    have one: "data_of (process_one env directory_path t nc) = data_of t" for t
      by (rule bad_file_no_data [OF bad])
    define run where "run = (\<lambda>ncs s. fold (\<lambda>nc s. process_one env directory_path s nc) ncs s)"
    have cong: "data_of t = data_of t' \<Longrightarrow> data_of (run xs t) = data_of (run xs t')" for xs t t'
      unfolding run_def by (rule data_fold_cong)
    have app: "run (xs @ ys) t = run ys (run xs t)" for xs ys t
      unfolding run_def by simp
    have cons: "run (nc # ys) t = run ys (process_one env directory_path t nc)" for ys t
      unfolding run_def by simp
    have st0: "data_of (st \<lparr> log := l1 \<rparr>) = data_of (st \<lparr> log := l2 \<rparr>)" for l1 l2
      by (simp add: data_of_def)
    have pre: "data_of (run before (st \<lparr> log := l1 \<rparr>)) = data_of (run before (st \<lparr> log := l2 \<rparr>))"
      for l1 l2
      by (rule cong [OF st0])
    have step: "data_of (process_one env directory_path (run before (st \<lparr> log := l1 \<rparr>)) nc)
             = data_of (run before (st \<lparr> log := l2 \<rparr>))" for l1 l2
      unfolding one by (rule pre)
    have fin: "data_of (run (before @ nc # after) (st \<lparr> log := l1 \<rparr>))
             = data_of (run (before @ after) (st \<lparr> log := l2 \<rparr>))" for l1 l2
      unfolding app cons by (rule cong [OF step])
    have "data_of (process_directory env st directory_path (Some (before @ nc # after)))
              = data_of (process_directory env st directory_path (Some (before @ after)))"
      unfolding process_directory_def option.case run_def [symmetric] by (rule fin)
    with one show ?thesis by simp
  qed
  show ?thesis
    apply (intro conjI impI)
        apply (rule a)
       apply (rule b)
      apply (rule c)
     apply (erule d [THEN conjunct1])
    apply (erule d [THEN conjunct2])
    done
qed

lemma example_once_counts:
  "row_counts (db (process_one example_env ''d'' (empty_pipeline \<lparr> log := l \<rparr>)
                     (''a.nc'', Dataset example_ds))) = (2, 1)"
proof -
  have ids: "map m_id (fst (process_netcdf_file example_format 27000 ''d/a.nc'' (Dataset example_ds)))
               = [''F1_7_0'', ''F1_7_2'']"
     "map_option p_id (snd (process_netcdf_file example_format 27000 ''d/a.nc'' (Dataset example_ds)))
               = Some ''F1_7''"
    using example_ds_decoded_ids [of example_format 27000] by simp_all
  obtain fd pd where r: "process_netcdf_file example_format 27000 ''d/a.nc'' (Dataset example_ds) = (fd, pd)"
    by (cases "process_netcdf_file example_format 27000 ''d/a.nc'' (Dataset example_ds)")
  from ids r obtain m1 m2 p where fd: "fd = [m1, m2]" "m_id m1 = ''F1_7_0''" "m_id m2 = ''F1_7_2''"
      and pd: "pd = Some p" "p_id p = ''F1_7''"
    by (auto simp: map_eq_Cons_conv)
  show ?thesis
    by (simp add: db_process_one example_env_def empty_pipeline_def r fd pd upsert_batch_def
          row_counts_def merge_float_def merge_profile_def)
qed

theorem C5_directory_isolation_witness:
  "decode_fails example_env ''d'' (''bad.nc'', Unreadable)
   \<and> data_of (process_directory example_env empty_pipeline ''d''
                (Some [(''bad.nc'', Unreadable), (''a.nc'', Dataset example_ds)]))
       = data_of (process_directory example_env empty_pipeline ''d''
                (Some [(''a.nc'', Dataset example_ds)]))
   \<and> row_counts (db (process_directory example_env empty_pipeline ''d''
                (Some [(''bad.nc'', Unreadable), (''a.nc'', Dataset example_ds)]))) = (2, 1)"
proof -
  have bad: "decode_fails example_env ''d'' (''bad.nc'', Unreadable)"
    by (simp add: decode_fails_def)
  note t = C5_directory_isolation [where env = example_env and st = empty_pipeline
      and directory_path = "''d''" and nc = "(''bad.nc'', Unreadable)" and before = "[]"
      and after = "[(''a.nc'', Dataset example_ds)]" and s = empty_pipeline and ncs = "[]"]
  from t have imp: "decode_fails example_env ''d'' (''bad.nc'', Unreadable)
            \<or> db_fault example_env (''d'' @ ''/'' @ fst (''bad.nc'', Unreadable))
        \<longrightarrow> data_of (process_one example_env ''d'' empty_pipeline (''bad.nc'', Unreadable))
              = data_of empty_pipeline
          \<and> data_of (process_directory example_env empty_pipeline ''d''
                (Some ([] @ (''bad.nc'', Unreadable) # [(''a.nc'', Dataset example_ds)])))
              = data_of (process_directory example_env empty_pipeline ''d''
                (Some ([] @ [(''a.nc'', Dataset example_ds)])))"
    by (elim conjE)
  from imp bad have eq: "data_of (process_directory example_env empty_pipeline ''d''
                (Some [(''bad.nc'', Unreadable), (''a.nc'', Dataset example_ds)]))
       = data_of (process_directory example_env empty_pipeline ''d''
                (Some [(''a.nc'', Dataset example_ds)]))"
    by simp
  have good: "row_counts (db (process_directory example_env empty_pipeline ''d''
                (Some [(''a.nc'', Dataset example_ds)]))) = (2, 1)"
    unfolding process_directory_def option.case fold_simps by (rule example_once_counts)
  from eq have "db (process_directory example_env empty_pipeline ''d''
                (Some [(''bad.nc'', Unreadable), (''a.nc'', Dataset example_ds)]))
       = db (process_directory example_env empty_pipeline ''d''
                (Some [(''a.nc'', Dataset example_ds)]))"
    by (simp add: data_of_def)
  with good bad eq show ?thesis by simp
qed

subsection \<open>The vectorizer\<close>

lemma length_l2_normalize: "length (l2_normalize x) = length x"
  by (simp add: l2_normalize_def Let_def)

lemma embed_fitted:
  "create_vector_embedding stop (Fitted vocabulary idf) txt =
     (Fitted vocabulary idf,
      l2_normalize (map2 (\<lambda>t w. real (count_list (analyze stop txt) t) * w) vocabulary idf))"
  by (simp add: create_vector_embedding_def transform_def Let_def)

lemma embed_unfitted_empty:
  "analyze stop txt = [] \<Longrightarrow>
   create_vector_embedding stop Unfitted txt = (Unfitted, replicate 1000 0)"
  by (simp add: create_vector_embedding_def fit_def Let_def)

lemma embed_unfitted_fit:
  "analyze stop txt \<noteq> [] \<Longrightarrow>
   fst (create_vector_embedding stop Unfitted txt) =
     Fitted (limit_features max_features (analyze stop txt) (sort (remdups (analyze stop txt))))
            (map (\<lambda>t. smooth_idf 1 1)
               (limit_features max_features (analyze stop txt) (sort (remdups (analyze stop txt)))))"
  by (simp add: create_vector_embedding_def fit_def transform_def Let_def)

lemma embed_all_fitted: "embed_all stop (Fitted vocabulary idf) txts = Fitted vocabulary idf"
  by (induction txts) (simp_all add: embed_all_def embed_fitted)

lemma count_list_filter:
  "t \<in> A \<Longrightarrow> count_list (filter (\<lambda>w. w \<in> A) ws) t = count_list ws t"
  by (induction ws) auto

lemma map2_count_cong:
  assumes "filter (\<lambda>w. w \<in> set vocabulary) ws = filter (\<lambda>w. w \<in> set vocabulary) ws'"
  shows "map2 (\<lambda>t w. real (count_list ws t) * w) vocabulary idf
       = map2 (\<lambda>t w. real (count_list ws' t) * w) vocabulary idf"
proof -
  have "count_list ws t = count_list ws' t" if "t \<in> set vocabulary" for t
    using count_list_filter [OF that, of ws] count_list_filter [OF that, of ws'] assms by simp
  then have "\<forall>p\<in>set (zip vocabulary idf). (case p of (t, w) \<Rightarrow> real (count_list ws t) * w)
                = (case p of (t, w) \<Rightarrow> real (count_list ws' t) * w)"
    by (auto dest: set_zip_leftD)
  then show ?thesis unfolding map_eq_conv .
qed

text \<open>
  C8 (amended). A fitted vectorizer is never changed by an embedding call, and two texts
  that agree on the words of the vocabulary get the same vector: words outside the
  vocabulary contribute nothing. Starting unfitted, a first text with at least one term
  fixes the vocabulary (the sorted distinct terms of that text, cut to the most frequent
  1000) for all later calls. A first text without any term does not: the call returns
  the zero vector of length 1000, the vectorizer stays unfitted, and a later text is the
  one it is fitted on.
\<close>

theorem C8_frozen_vocabulary:
  "fst (create_vector_embedding stop (Fitted vocabulary idf) txt) = Fitted vocabulary idf
   \<and> (filter (\<lambda>w. w \<in> set vocabulary) (analyze stop txt)
        = filter (\<lambda>w. w \<in> set vocabulary) (analyze stop txt')
       \<longrightarrow> snd (create_vector_embedding stop (Fitted vocabulary idf) txt)
           = snd (create_vector_embedding stop (Fitted vocabulary idf) txt'))
   \<and> (analyze stop txt \<noteq> []
       \<longrightarrow> embed_all stop Unfitted (txt # later) = fst (create_vector_embedding stop Unfitted txt)
         \<and> (\<exists>idf'. embed_all stop Unfitted (txt # later)
               = Fitted (limit_features max_features (analyze stop txt)
                           (sort (remdups (analyze stop txt)))) idf'))
   \<and> (analyze stop txt = []
       \<longrightarrow> create_vector_embedding stop Unfitted txt = (Unfitted, replicate 1000 0)
         \<and> embed_all stop Unfitted (txt # later) = embed_all stop Unfitted later)"
proof -
  have a: "fst (create_vector_embedding stop (Fitted vocabulary idf) txt) = Fitted vocabulary idf"
    by (simp add: embed_fitted)
  have b: "snd (create_vector_embedding stop (Fitted vocabulary idf) txt)
           = snd (create_vector_embedding stop (Fitted vocabulary idf) txt')"
    if "filter (\<lambda>w. w \<in> set vocabulary) (analyze stop txt)
        = filter (\<lambda>w. w \<in> set vocabulary) (analyze stop txt')"
    by (simp only: embed_fitted snd_conv map2_count_cong [OF that, of idf])
  have c: "embed_all stop Unfitted (txt # later) = fst (create_vector_embedding stop Unfitted txt)
         \<and> (\<exists>idf'. embed_all stop Unfitted (txt # later)
               = Fitted (limit_features max_features (analyze stop txt)
                           (sort (remdups (analyze stop txt)))) idf')"
    if ne: "analyze stop txt \<noteq> []"
  proof -
    have "embed_all stop Unfitted (txt # later)
            = embed_all stop (fst (create_vector_embedding stop Unfitted txt)) later"
      by (simp add: embed_all_def)
    then show ?thesis
      unfolding embed_unfitted_fit [OF ne] by (simp add: embed_all_fitted)
  qed
  have d: "create_vector_embedding stop Unfitted txt = (Unfitted, replicate 1000 0)
         \<and> embed_all stop Unfitted (txt # later) = embed_all stop Unfitted later"
    if "analyze stop txt = []"
    using embed_unfitted_empty [OF that] by (simp add: embed_all_def)
  show ?thesis
    apply (intro conjI impI)
         apply (rule a)
        apply (erule b)
       apply (erule c [THEN conjunct1])
      apply (erule c [THEN conjunct2])
     apply (erule d [THEN conjunct1])
    apply (erule d [THEN conjunct2])
    done
qed

lemma analyze_two_terms: "analyze example_stop ''ocean temperature'' = [''ocean'', ''temperature'']"
  by (simp add: analyze_def lower_char_def is_word_char_def example_stop_def)

lemma analyze_stop_word: "analyze example_stop ''the'' = []"
  by (simp add: analyze_def lower_char_def is_word_char_def example_stop_def)

lemma analyze_empty_text: "analyze example_stop '''' = []"
  by (simp add: analyze_def)

lemma sort_two_terms: "sort (remdups [''ocean'', ''temperature'']) = [''ocean'', ''temperature'']"
  by code_simp

text \<open>
  C3. On a fresh processor the text "ocean temperature" is embedded as a vector of
  length 2 (the size of the vocabulary it is fitted on), while the text "the", on which
  the fit fails, gives the fallback vector of length 1000.
\<close>

theorem C3_embedding_lengths_differ:
  "length (snd (create_vector_embedding example_stop Unfitted ''ocean temperature'')) = 2
   \<and> length (snd (create_vector_embedding example_stop Unfitted ''the'')) = 1000"
  by (simp add: create_vector_embedding_def fit_def transform_def analyze_two_terms analyze_stop_word sort_two_terms limit_features_def
        max_features_def length_l2_normalize Let_def)

text \<open>
  C8, as stated, fails: after embedding "the" and then "ocean temperature" the vectorizer
  is fitted on the second text, not on the first text ever embedded.
\<close>

theorem C8_first_text_counterexample:
  "embed_all example_stop Unfitted [''the''] = Unfitted
   \<and> embed_all example_stop Unfitted [''the'', ''ocean temperature'']
       = Fitted [''ocean'', ''temperature''] [1, 1]"
  by (simp add: embed_all_def create_vector_embedding_def fit_def transform_def analyze_two_terms analyze_stop_word sort_two_terms
        limit_features_def max_features_def smooth_idf_def Let_def)

subsection \<open>Similarity search\<close>

lemma similarities_loop_ok:
  "dims_agree qv entries \<Longrightarrow> similarities_loop qv entries acc = Inr (acc @ hits_of qv entries)"
proof (induction entries arbitrary: acc)
  case Nil
  show ?case by (simp add: hits_of_def)
next
  case (Cons pe entries)
  obtain pid e where pe: "pe = (pid, e)" by (cases pe)
  from Cons.prems have d: "dims_agree qv entries" and l: "length (e_vector e) = length qv" "length qv \<noteq> 0"
    by (auto simp: dims_agree_def pe list_all_iff)
  have c: "cosine_similarity qv (e_vector e) = Inr (cos_value qv (e_vector e))"
    using l by (simp add: cosine_similarity_def cos_value_def)
  show ?case
    unfolding pe similarities_loop.simps c using Cons.IH [OF d] by (simp add: hits_of_def)
qed

lemma similarities_loop_fail:
  "\<not> dims_agree qv entries \<Longrightarrow> similarities_loop qv entries acc = Inl ValueError"
proof (induction entries arbitrary: acc)
  case Nil
  then show ?case by (simp add: dims_agree_def)
next
  case (Cons pe entries)
  obtain pid e where pe: "pe = (pid, e)" by (cases pe)
  show ?case
  proof (cases "length (e_vector e) = length qv \<and> length qv \<noteq> 0")
    case True
    with Cons.prems have "\<not> dims_agree qv entries" by (auto simp: dims_agree_def pe list_all_iff)
    from Cons.IH [OF this] True show ?thesis
      by (simp add: pe cosine_similarity_def)
  next
    case False
    then show ?thesis by (auto simp: pe cosine_similarity_def)
  qed
qed

lemma search_eq:
  "snd (search_similar_profiles stop pr query_text top_k) =
     (if vector_store pr = [] then []
      else if dims_agree (snd (create_vector_embedding stop (vectorizer pr) query_text)) (vector_store pr)
      then slice_to (sort_reverse (hits_of (snd (create_vector_embedding stop (vectorizer pr) query_text))
                                     (vector_store pr))) top_k
      else [])"
proof -
  obtain vz qv where c: "create_vector_embedding stop (vectorizer pr) query_text = (vz, qv)"
    by (cases "create_vector_embedding stop (vectorizer pr) query_text")
  show ?thesis
  proof (cases "dims_agree qv (vector_store pr)")
    case True
    from similarities_loop_ok [OF True, of "[]"] True show ?thesis
      by (simp add: search_similar_profiles_def c)
  next
    case False
    from similarities_loop_fail [OF False, of "[]"] False show ?thesis
      by (simp add: search_similar_profiles_def c)
  qed
qed

lemma sorted_wrt_take: "sorted_wrt P xs \<Longrightarrow> sorted_wrt P (take n xs)"
  by (metis append_take_drop_id sorted_wrt_append)

lemma sort_reverse_sorted:
  "sorted_wrt (\<lambda>a b. h_similarity b \<le> h_similarity a) (sort_reverse hits)"
proof -
  have "sorted (map (\<lambda>h. - h_similarity h) (sort_key (\<lambda>h. - h_similarity h) hits))"
    by (rule sorted_sort_key)
  then show ?thesis by (simp add: sort_reverse_def sorted_map)
qed

text \<open>
  C6 (amended). For \<open>top_k\<close> at least 0 and an index in which every stored vector has the
  length of the query's vector (and that length is not 0), the search returns the first
  \<open>top_k\<close> of the hits, one per stored entry, sorted by similarity, largest first; that is
  min(M, top_k) results; entries with equal similarity keep their insertion order. An
  empty store gives the empty result.
\<close>

theorem C6_query_ranking:
  assumes k: "0 \<le> top_k"
    and d: "dims_agree (snd (create_vector_embedding stop (vectorizer pr) query_text)) (vector_store pr)"
  shows "snd (search_similar_profiles stop pr query_text top_k)
           = take (nat top_k) (sort_reverse (hits_of
               (snd (create_vector_embedding stop (vectorizer pr) query_text)) (vector_store pr)))
       \<and> length (snd (search_similar_profiles stop pr query_text top_k))
           = min (length (vector_store pr)) (nat top_k)
       \<and> sorted_wrt (\<lambda>a b. h_similarity b \<le> h_similarity a)
            (snd (search_similar_profiles stop pr query_text top_k))
       \<and> (\<forall>v. filter (\<lambda>h. h_similarity h = v) (sort_reverse (hits_of
               (snd (create_vector_embedding stop (vectorizer pr) query_text)) (vector_store pr)))
             = filter (\<lambda>h. h_similarity h = v) (hits_of
               (snd (create_vector_embedding stop (vectorizer pr) query_text)) (vector_store pr)))
       \<and> map h_profile_id (hits_of
               (snd (create_vector_embedding stop (vectorizer pr) query_text)) (vector_store pr))
           = map fst (vector_store pr)
       \<and> (vector_store pr = [] \<longrightarrow> search_similar_profiles stop pr query_text top_k = (pr, []))"
proof -
  define qv where "qv = snd (create_vector_embedding stop (vectorizer pr) query_text)"
  define hits where "hits = hits_of qv (vector_store pr)"
  have len: "length hits = length (vector_store pr)"
    by (simp add: hits_def hits_of_def)
  have res: "snd (search_similar_profiles stop pr query_text top_k) = take (nat top_k) (sort_reverse hits)"
    using k d unfolding search_eq qv_def [symmetric] hits_def
    by (cases "vector_store pr = []") (simp_all add: slice_to_def hits_of_def sort_reverse_def)
  have l: "length (take (nat top_k) (sort_reverse hits)) = min (length (vector_store pr)) (nat top_k)"
    by (simp add: sort_reverse_def len)
  have s: "sorted_wrt (\<lambda>a b. h_similarity b \<le> h_similarity a) (take (nat top_k) (sort_reverse hits))"
    by (rule sorted_wrt_take [OF sort_reverse_sorted])
  have st: "filter (\<lambda>h. h_similarity h = v) (sort_reverse hits) = filter (\<lambda>h. h_similarity h = v) hits"
    for v
  proof -
    have "filter (\<lambda>h. - h_similarity h = - v) (sort_key (\<lambda>h. - h_similarity h) hits)
            = filter (\<lambda>h. - h_similarity h = - v) hits"
      by (rule sort_key_stable)
    then show ?thesis by (simp add: sort_reverse_def)
  qed
  have ids: "map h_profile_id hits = map fst (vector_store pr)"
    by (simp add: hits_def hits_of_def split_def)
  have e: "search_similar_profiles stop pr query_text top_k = (pr, [])" if "vector_store pr = []"
    using that by (simp add: search_similar_profiles_def)
  show ?thesis
    unfolding res qv_def [symmetric] hits_def [symmetric]
    using l s st ids e by blast
qed

text \<open>
  C9. After a save that could write its file, loading that file into any processor gives
  back the saved dictionary and vectorizer, so every query returns what it returned on the
  saved index.
\<close>

theorem C9_save_load_roundtrip:
  "load_vector_store (save_vector_store True files pr file_path) fresh file_path = (pr, True)
   \<and> snd (search_similar_profiles stop
           (fst (load_vector_store (save_vector_store True files pr file_path) fresh file_path))
           query_text top_k)
       = snd (search_similar_profiles stop pr query_text top_k)"
proof -
  have "\<lparr> vectorizer = vectorizer pr, vector_store = vector_store pr \<rparr> = pr"
    by (cases pr) simp
  then have l: "load_vector_store (save_vector_store True files pr file_path) fresh file_path
                  = (pr, True)"
    by (simp add: load_vector_store_def save_vector_store_def)
  show ?thesis unfolding l by simp
qed

subsection \<open>Examples for the index\<close>

lemma analyze_ocean: "analyze example_stop ''ocean'' = [''ocean'']"
  by (simp add: analyze_def lower_char_def is_word_char_def example_stop_def)

lemma example_query_vector:
  "snd (create_vector_embedding example_stop (vectorizer example_index) ''ocean'') = [1, 0]"
  by (simp add: example_index_def embed_fitted analyze_ocean l2_normalize_def)

lemma example_dims:
  "dims_agree (snd (create_vector_embedding example_stop (vectorizer example_index) ''ocean''))
     (vector_store example_index)"
  unfolding example_query_vector by (simp add: dims_agree_def example_index_def example_entry_def)

lemma example_hits:
  "map h_similarity (hits_of [1, 0] (vector_store example_index)) = [0, 1, 1]"
  by (simp add: hits_of_def example_index_def example_entry_def cos_value_def l2_normalize_def)

lemma example_sorted_ids:
  "map h_profile_id (take (nat 2) (sort_reverse (hits_of [1, 0] (vector_store example_index))))
     = [''B_1'', ''C_1'']"
  by (simp add: sort_reverse_def hits_of_def example_index_def example_entry_def cos_value_def
        l2_normalize_def)

theorem C6_query_ranking_witness:
  "(0::int) \<le> 2
   \<and> dims_agree (snd (create_vector_embedding example_stop (vectorizer example_index) ''ocean''))
        (vector_store example_index)
   \<and> map h_profile_id (snd (search_similar_profiles example_stop example_index ''ocean'' 2))
       = [''B_1'', ''C_1'']
   \<and> length (snd (search_similar_profiles example_stop example_index ''ocean'' 2)) = 2"
proof -
  have k: "(0::int) \<le> 2" by simp
  note t = C6_query_ranking [OF k example_dims]
  from t have r: "snd (search_similar_profiles example_stop example_index ''ocean'' 2)
       = take (nat 2) (sort_reverse (hits_of [1, 0] (vector_store example_index)))"
    unfolding example_query_vector by (elim conjE)
  from r example_sorted_ids have ids: "map h_profile_id (snd (search_similar_profiles example_stop example_index ''ocean'' 2))
       = [''B_1'', ''C_1'']"
    by simp
  have "length (map h_profile_id (snd (search_similar_profiles example_stop example_index ''ocean'' 2))) = 2"
    unfolding ids by simp
  then have "length (snd (search_similar_profiles example_stop example_index ''ocean'' 2)) = 2"
    by simp
  with k example_dims ids show ?thesis by simp
qed

lemma blank_indexed:
  "fst (store_to_vector_database example_stop fresh_processor (Some blank_profile))
     = \<lparr> vectorizer = Unfitted,
         vector_store = [(''F1_7'', \<lparr> e_vector = replicate 1000 0,
             e_metadata = \<lparr> md_platform_number = ''F1'', md_ocean_region = ''North Atlantic'',
               md_latitude = Val 45, md_longitude = Val (-100), md_profile_date = 20000,
               md_temperature_range = \<lparr> r_min = Val 8, r_max = Val 10, r_mean = Val 9 \<rparr>,
               md_salinity_range = \<lparr> r_min = Val 34, r_max = Val 35, r_mean = Val (69 / 2) \<rparr> \<rparr>,
             e_text = '''' \<rparr>)] \<rparr>"
  by (simp add: store_to_vector_database_def fresh_processor_def blank_profile_def
        embed_unfitted_empty [OF analyze_empty_text])

text \<open>
  C6, as stated, fails: a fresh processor indexes a profile whose summary has no term (the
  stored vector is the fallback of length 1000); the query "ocean temperature" then fits
  the vectorizer, its vector has length 2, the similarity computation is refused and the
  search returns nothing although the index holds one entry.
\<close>

theorem C6_mismatched_lengths_counterexample:
  "length (vector_store (fst (store_to_vector_database example_stop fresh_processor
                                (Some blank_profile)))) = 1
   \<and> snd (search_similar_profiles example_stop
            (fst (store_to_vector_database example_stop fresh_processor (Some blank_profile)))
            ''ocean temperature'' 5) = []"
proof -
  have q: "length (snd (create_vector_embedding example_stop Unfitted ''ocean temperature'')) = 2"
    by (simp add: create_vector_embedding_def fit_def transform_def analyze_two_terms sort_two_terms
          limit_features_def max_features_def length_l2_normalize Let_def)
  show ?thesis
    unfolding blank_indexed search_eq
    by (simp add: dims_agree_def q)
qed

theorem C8_frozen_vocabulary_witness:
  "analyze example_stop ''ocean temperature'' \<noteq> []
   \<and> embed_all example_stop Unfitted [''ocean temperature'', ''warm sea'']
        = Fitted [''ocean'', ''temperature''] [1, 1]
   \<and> snd (create_vector_embedding example_stop (Fitted [''ocean''] [1]) ''warm ocean'')
        = snd (create_vector_embedding example_stop (Fitted [''ocean''] [1]) ''ocean'')"
proof -
  have ne: "analyze example_stop ''ocean temperature'' \<noteq> []"
    by (simp add: analyze_two_terms)
  have w: "analyze example_stop ''warm ocean'' = [''warm'', ''ocean'']"
    by (simp add: analyze_def lower_char_def is_word_char_def example_stop_def)
  have f: "filter (\<lambda>w. w \<in> set [''ocean'']) (analyze example_stop ''warm ocean'')
         = filter (\<lambda>w. w \<in> set [''ocean'']) (analyze example_stop ''ocean'')"
    by (simp add: w analyze_ocean)
  have fit1: "fst (create_vector_embedding example_stop Unfitted ''ocean temperature'')
                = Fitted [''ocean'', ''temperature''] [1, 1]"
    by (simp add: create_vector_embedding_def fit_def transform_def analyze_two_terms sort_two_terms
          limit_features_def max_features_def smooth_idf_def Let_def)
  note t1 = C8_frozen_vocabulary [of example_stop "[''ocean'']" "[1]" "''ocean temperature''"
      "''ocean''" "[''warm sea'']"]
  note t2 = C8_frozen_vocabulary [of example_stop "[''ocean'']" "[1]" "''warm ocean''"
      "''ocean''" "[]"]
  from t1 ne have a: "embed_all example_stop Unfitted [''ocean temperature'', ''warm sea'']
        = fst (create_vector_embedding example_stop Unfitted ''ocean temperature'')"
    by blast
  from t2 f have b: "snd (create_vector_embedding example_stop (Fitted [''ocean''] [1]) ''warm ocean'')
        = snd (create_vector_embedding example_stop (Fitted [''ocean''] [1]) ''ocean'')"
    by blast
  from ne a b fit1 show ?thesis by simp
qed

theorem C9_save_load_roundtrip_witness:
  "load_vector_store (save_vector_store True Map.empty example_index ''argo_vector_store.pkl'')
      fresh_processor ''argo_vector_store.pkl'' = (example_index, True)
   \<and> map h_profile_id (snd (search_similar_profiles example_stop
         (fst (load_vector_store
                 (save_vector_store True Map.empty example_index ''argo_vector_store.pkl'')
                 fresh_processor ''argo_vector_store.pkl'')) ''ocean'' 2))
       = map h_profile_id (snd (search_similar_profiles example_stop example_index ''ocean'' 2))"
  using C9_save_load_roundtrip [of Map.empty example_index "''argo_vector_store.pkl''"
      fresh_processor example_stop "''ocean''" 2]
  by simp

subsection \<open>The query surface\<close>

lemma range_filter_Inr:
  assumes "range_filter column rng = Inr f"
  shows "\<forall>xs. rng = Some xs \<longrightarrow> xs \<noteq> [] \<longrightarrow>
           2 \<le> length xs \<and> (\<forall>row. f row \<longrightarrow> sql_ge (column row) (xs ! 0) \<and> sql_le (column row) (xs ! 1))"
  using assms
  by (auto simp: range_filter_def truthy_def item_def split: if_splits option.splits sum.splits)

lemma start_filter_Inr:
  assumes "start_filter cast start_date = Inr f"
  shows "\<forall>sd. start_date = Some sd \<longrightarrow> sd \<noteq> [] \<longrightarrow>
           (\<exists>t. cast sd = Some t \<and> (\<forall>row. f row \<longrightarrow> t \<le> m_measurement_time row))"
  using assms
  by (auto simp: start_filter_def truthy_def split: if_splits option.splits)

lemma end_filter_Inr:
  assumes "end_filter cast end_date = Inr f"
  shows "\<forall>ed. end_date = Some ed \<longrightarrow> ed \<noteq> [] \<longrightarrow>
           (\<exists>t. cast ed = Some t \<and> (\<forall>row. f row \<longrightarrow> m_measurement_time row \<le> t))"
  using assms
  by (auto simp: end_filter_def truthy_def split: if_splits option.splits)

lemma region_filter_holds:
  "region_filter region row \<Longrightarrow> region = Some rg \<Longrightarrow> rg \<noteq> [] \<Longrightarrow> rg \<noteq> ''Unknown'' \<Longrightarrow>
   m_ocean_region row = rg"
  by (simp add: region_filter_def truthy_def)

text \<open>
  C4 (amended). A successful query returns at most 1000 rows, reports their number, and
  every returned row satisfies every filter that was given a non-empty value: the start
  and end time, the temperature range and the salinity range (bounds inclusive), and the
  region unless the region given is "Unknown", which the query takes as no region filter.
\<close>

theorem C4_query_filters:
  assumes q: "query_argo_data cast status table region start_date end_date
                temperature_range salinity_range = Success n rows"
  shows "length rows \<le> 1000 \<and> n = length rows
     \<and> (\<forall>r\<in>set rows.
           (\<forall>rg. region = Some rg \<longrightarrow> rg \<noteq> [] \<longrightarrow> rg \<noteq> ''Unknown'' \<longrightarrow> q_ocean_region r = rg)
         \<and> (\<forall>sd. start_date = Some sd \<longrightarrow> sd \<noteq> [] \<longrightarrow> (\<exists>t. cast sd = Some t \<and> t \<le> q_time r))
         \<and> (\<forall>ed. end_date = Some ed \<longrightarrow> ed \<noteq> [] \<longrightarrow> (\<exists>t. cast ed = Some t \<and> q_time r \<le> t))
         \<and> (\<forall>xs. temperature_range = Some xs \<longrightarrow> xs \<noteq> [] \<longrightarrow>
                2 \<le> length xs \<and> sql_ge (q_temperature r) (xs ! 0) \<and> sql_le (q_temperature r) (xs ! 1))
         \<and> (\<forall>xs. salinity_range = Some xs \<longrightarrow> xs \<noteq> [] \<longrightarrow>
                2 \<le> length xs \<and> sql_ge (q_salinity r) (xs ! 0) \<and> sql_le (q_salinity r) (xs ! 1)))"
proof -
  from q obtain f_temp f_sal f_start f_end where
      ft: "range_filter m_temperature temperature_range = Inr f_temp"
    and fs: "range_filter m_salinity salinity_range = Inr f_sal"
    and fst: "start_filter cast start_date = Inr f_start"
    and fe: "end_filter cast end_date = Inr f_end"
    and rows: "rows = map to_query_row (take 1000 (filter
                 (\<lambda>row. region_filter region row \<and> f_start row \<and> f_end row \<and> f_temp row \<and> f_sal row)
                 table))"
    and n: "n = length rows"
    by (auto simp: query_argo_data_def Let_def split: if_splits sum.splits)
  have len: "length rows \<le> 1000"
    by (simp add: rows)
  have each: "(\<forall>rg. region = Some rg \<longrightarrow> rg \<noteq> [] \<longrightarrow> rg \<noteq> ''Unknown'' \<longrightarrow> q_ocean_region r = rg)
         \<and> (\<forall>sd. start_date = Some sd \<longrightarrow> sd \<noteq> [] \<longrightarrow> (\<exists>t. cast sd = Some t \<and> t \<le> q_time r))
         \<and> (\<forall>ed. end_date = Some ed \<longrightarrow> ed \<noteq> [] \<longrightarrow> (\<exists>t. cast ed = Some t \<and> q_time r \<le> t))
         \<and> (\<forall>xs. temperature_range = Some xs \<longrightarrow> xs \<noteq> [] \<longrightarrow>
                2 \<le> length xs \<and> sql_ge (q_temperature r) (xs ! 0) \<and> sql_le (q_temperature r) (xs ! 1))
         \<and> (\<forall>xs. salinity_range = Some xs \<longrightarrow> xs \<noteq> [] \<longrightarrow>
                2 \<le> length xs \<and> sql_ge (q_salinity r) (xs ! 0) \<and> sql_le (q_salinity r) (xs ! 1))"
    if r: "r \<in> set rows" for r
  proof -
    from r obtain row where row: "r = to_query_row row"
      and sat: "region_filter region row" "f_start row" "f_end row" "f_temp row" "f_sal row"
      unfolding rows by (auto dest!: in_set_takeD)
    have a: "\<forall>rg. region = Some rg \<longrightarrow> rg \<noteq> [] \<longrightarrow> rg \<noteq> ''Unknown'' \<longrightarrow> q_ocean_region r = rg"
      using region_filter_holds [OF sat(1)] by (simp add: row to_query_row_def)
    have b: "\<forall>sd. start_date = Some sd \<longrightarrow> sd \<noteq> [] \<longrightarrow> (\<exists>t. cast sd = Some t \<and> t \<le> q_time r)"
      using start_filter_Inr [OF fst] sat(2) by (simp add: row to_query_row_def) blast
    have c: "\<forall>ed. end_date = Some ed \<longrightarrow> ed \<noteq> [] \<longrightarrow> (\<exists>t. cast ed = Some t \<and> q_time r \<le> t)"
      using end_filter_Inr [OF fe] sat(3) by (simp add: row to_query_row_def) blast
    have d: "\<forall>xs. temperature_range = Some xs \<longrightarrow> xs \<noteq> [] \<longrightarrow>
                2 \<le> length xs \<and> sql_ge (q_temperature r) (xs ! 0) \<and> sql_le (q_temperature r) (xs ! 1)"
      using range_filter_Inr [OF ft] sat(4) by (simp add: row to_query_row_def)
    have e: "\<forall>xs. salinity_range = Some xs \<longrightarrow> xs \<noteq> [] \<longrightarrow>
                2 \<le> length xs \<and> sql_ge (q_salinity r) (xs ! 0) \<and> sql_le (q_salinity r) (xs ! 1)"
      using range_filter_Inr [OF fs] sat(5) by (simp add: row to_query_row_def)
    from a b c d e show ?thesis by (intro conjI)
  qed
  show ?thesis
    apply (intro conjI)
      apply (rule len)
     apply (rule n)
    apply (rule ballI)
    apply (erule each)
    done
qed

text \<open>
  C4, as stated, fails: with the region filter "Unknown" the query returns a row of the
  North Atlantic.
\<close>

theorem C4_unknown_region_counterexample:
  "query_argo_data (\<lambda>s. None) Up [example_measurement] (Some ''Unknown'') None None None None
     = Success 1 [to_query_row example_measurement]
   \<and> q_ocean_region (to_query_row example_measurement) = ''North Atlantic''"
  by (simp add: query_argo_data_def range_filter_def start_filter_def end_filter_def truthy_def
        region_filter_def to_query_row_def example_measurement_def make_measurement_def)

theorem C4_query_filters_witness:
  "query_argo_data (\<lambda>s. None) Up [example_measurement, example_measurement2]
       (Some ''North Atlantic'') None None (Some [9, 11]) None
     = Success 1 [to_query_row example_measurement]
   \<and> q_ocean_region (to_query_row example_measurement) = ''North Atlantic''
   \<and> sql_ge (q_temperature (to_query_row example_measurement)) 9
   \<and> sql_le (q_temperature (to_query_row example_measurement)) 11"
proof -
  have q: "query_argo_data (\<lambda>s. None) Up [example_measurement, example_measurement2]
       (Some ''North Atlantic'') None None (Some [9, 11]) None
     = Success 1 [to_query_row example_measurement]"
    by (simp add: query_argo_data_def range_filter_def start_filter_def end_filter_def truthy_def
        region_filter_def item_def sql_ge_def sql_le_def example_measurement_def
        example_measurement2_def make_measurement_def)
  from C4_query_filters [OF q] have
    "q_ocean_region (to_query_row example_measurement) = ''North Atlantic''
     \<and> sql_ge (q_temperature (to_query_row example_measurement)) ([9, 11] ! 0)
     \<and> sql_le (q_temperature (to_query_row example_measurement)) ([9, 11] ! 1)"
    by simp
  with q show ?thesis by simp
qed

subsection \<open>Indexes built by the pipeline\<close>

text \<open>
  Every summary text of the decoder starts with the word ARGO. Unless that word is a stop
  word, indexing a decoded profile never takes the fallback, and the invariant holds in
  every state that \<open>process_directory\<close> reaches from a state where it holds; in such a
  state no stored vector is refused in a search.
\<close>

lemma limit_features_nonempty:
  assumes "terms \<noteq> []" "0 < n"
  shows "limit_features n tokens terms \<noteq> []"
proof (cases "length terms \<le> n")
  case True
  with assms show ?thesis by (simp add: limit_features_def)
next
  case False
  define ranked where "ranked = sort_key (\<lambda>t. - int (count_list tokens t)) terms"
  have "length ranked = length terms" by (simp add: ranked_def)
  with assms(1) have "ranked \<noteq> []" by (metis length_0_conv)
  then obtain t where t: "t \<in> set (take n ranked)"
    using assms(2) by (cases ranked; cases n) auto
  then have "t \<in> set terms"
    by (auto simp: ranked_def dest: in_set_takeD)
  with t have "t \<in> set (filter (\<lambda>t. t \<in> set (take n ranked)) terms)" by simp
  then have "filter (\<lambda>t. t \<in> set (take n ranked)) terms \<noteq> []"
    by (metis empty_iff empty_set)
  then show ?thesis
    using False by (simp add: limit_features_def ranked_def)
qed

lemma fit_vocabulary_nonempty:
  assumes "analyze stop txt \<noteq> []"
  shows "\<exists>vocabulary idf. fit stop txt = Inr (Fitted vocabulary idf)
           \<and> vocabulary \<noteq> [] \<and> length idf = length vocabulary"
proof -
  have "sort (remdups (analyze stop txt)) \<noteq> []"
    using assms by (metis length_0_conv length_sort remdups_eq_nil_iff)
  then have "limit_features max_features (analyze stop txt) (sort (remdups (analyze stop txt))) \<noteq> []"
    by (rule limit_features_nonempty) (simp add: max_features_def)
  then show ?thesis using assms by (simp add: fit_def Let_def)
qed

lemma index_ok_dims_agree:
  assumes "index_ok pr"
  shows "dims_agree (snd (create_vector_embedding stop (vectorizer pr) query_text)) (vector_store pr)"
proof (cases "vectorizer pr")
  case Unfitted
  with assms show ?thesis by (simp add: index_ok_def dims_agree_def)
next
  case (Fitted vocabulary idf)
  with assms have v: "vocabulary \<noteq> []" "length idf = length vocabulary"
    and a: "list_all (\<lambda>(profile_id, entry). length (e_vector entry) = length vocabulary) (vector_store pr)"
    by (simp_all add: index_ok_def)
  have "length (snd (create_vector_embedding stop (vectorizer pr) query_text)) = length vocabulary"
    by (simp add: Fitted embed_fitted length_l2_normalize v)
  with v a show ?thesis by (auto simp: dims_agree_def list_all_iff)
qed

lemma list_all_update:
  "list_all P al \<Longrightarrow> P (k, v) \<Longrightarrow> list_all P (AList.update k v al)"
  by (induction al) auto

lemma index_ok_store:
  assumes ok: "index_ok pr"
    and has_term: "vectorizer pr = Unfitted \<longrightarrow> analyze stop (p_summary_text p) \<noteq> []"
  shows "index_ok (fst (store_to_vector_database stop pr (Some p)))"
proof (cases "vectorizer pr")
  case Unfitted
  with has_term have ne: "analyze stop (p_summary_text p) \<noteq> []" by simp
  from fit_vocabulary_nonempty [OF ne] obtain vocabulary idf where
    f: "fit stop (p_summary_text p) = Inr (Fitted vocabulary idf)"
    and v: "vocabulary \<noteq> []" "length idf = length vocabulary" by blast
  have e: "create_vector_embedding stop Unfitted (p_summary_text p) =
        (Fitted vocabulary idf,
         l2_normalize (map2 (\<lambda>t w. real (count_list (analyze stop (p_summary_text p)) t) * w)
            vocabulary idf))"
    by (simp add: create_vector_embedding_def f transform_def Let_def)
  from ok Unfitted have s: "vector_store pr = []" by (simp add: index_ok_def)
  show ?thesis
    by (simp add: store_to_vector_database_def Unfitted e s index_ok_def v length_l2_normalize Let_def)
next
  case (Fitted vocabulary idf)
  with ok have v: "vocabulary \<noteq> []" "length idf = length vocabulary"
    and a: "list_all (\<lambda>(profile_id, entry). length (e_vector entry) = length vocabulary) (vector_store pr)"
    by (simp_all add: index_ok_def)
  show ?thesis
    by (simp add: store_to_vector_database_def Fitted embed_fitted index_ok_def v
          length_l2_normalize Let_def list_all_update [OF a])
qed

lemma summary_has_term:
  assumes "''argo'' \<notin> set stop"
  shows "analyze stop (summary_text_of fm platform_number cycle_number profile_lat profile_lon
            ocean_region m ms) \<noteq> []"
proof -
  obtain rest where r: "summary_text_of fm platform_number cycle_number profile_lat profile_lon
            ocean_region m ms = ''ARGO '' @ rest"
    by (simp add: summary_text_of_def)
  have w: "word_runs [] (map lower_char (''ARGO '' @ rest)) = ''argo'' # word_runs [] (map lower_char rest)"
    by (simp add: lower_char_def is_word_char_def)
  show ?thesis
    unfolding r analyze_def w using assms by simp
qed

lemma cycle_profile_has_term:
  assumes "''argo'' \<notin> set stop"
    and "cycle_profile fm now file_path ds platform_number i = Some p"
  shows "analyze stop (p_summary_text p) \<noteq> []"
proof -
  from assms(2) obtain m ms where
    "p = make_profile fm now file_path platform_number (CYCLE_NUMBER ds ! i) (LATITUDE ds ! i)
           (LONGITUDE ds ! i) (profile_time_of now ds i)
           (determine_ocean_region (LATITUDE ds ! i) (LONGITUDE ds ! i))
           (length (TEMP ds ! i)) m ms"
    by (auto simp: cycle_profile_def split: list.splits)
  then have "p_summary_text p = summary_text_of fm platform_number (CYCLE_NUMBER ds ! i)
           (LATITUDE ds ! i) (LONGITUDE ds ! i)
           (determine_ocean_region (LATITUDE ds ! i) (LONGITUDE ds ! i)) m ms"
    by (simp add: make_profile_def)
  then show ?thesis
    using summary_has_term [OF assms(1)] by simp
qed

lemma decoded_profile_has_term:
  assumes "''argo'' \<notin> set stop"
    and "snd (process_netcdf_file fm now file_path nc) = Some p"
  shows "analyze stop (p_summary_text p) \<noteq> []"
proof (cases nc)
  case Unreadable
  with assms(2) show ?thesis by (simp add: process_netcdf_file_def)
next
  case (Dataset ds)
  with assms(2) obtain i where
    "cycle_profile fm now file_path ds (platform_number_of ds) i = Some p"
    by (auto simp: process_netcdf_file_eq split: if_splits list.splits)
  then show ?thesis by (rule cycle_profile_has_term [OF assms(1)])
qed

lemma index_ok_process_one:
  assumes "''argo'' \<notin> set (stop_words env)" and ok: "index_ok (index st)"
  shows "index_ok (index (process_one env directory_path st nc))"
proof -
  define res where "res = process_netcdf_file (formatter env)
      (clock env (directory_path @ ''/'' @ fst nc)) (directory_path @ ''/'' @ fst nc) (snd nc)"
  have step: "index_ok (fst (store_to_vector_database (stop_words env) (index st) (snd res)))"
  proof (cases "snd res")
    case None
    then show ?thesis using ok by (simp add: store_to_vector_database_def)
  next
    case (Some p)
    have "analyze (stop_words env) (p_summary_text p) \<noteq> []"
      using decoded_profile_has_term [OF assms(1)] Some unfolding res_def by blast
    then show ?thesis
      unfolding Some using ok by (intro index_ok_store) simp_all
  qed
  show ?thesis
    unfolding index_process_one Let_def res_def [symmetric]
    using step ok by (cases "fst res \<noteq> [] \<and> \<not> db_fault env (directory_path @ ''/'' @ fst nc)") simp_all
qed

lemma index_ok_process_directory:
  assumes "''argo'' \<notin> set (stop_words env)" and ok: "index_ok (index st)"
  shows "index_ok (index (process_directory env st directory_path listing))"
proof (cases listing)
  case None
  then show ?thesis using ok by (simp add: process_directory_def)
next
  case (Some ncs)
  have "index_ok (index s) \<Longrightarrow>
        index_ok (index (fold (\<lambda>nc s. process_one env directory_path s nc) ncs s))" for s
  proof (induction ncs arbitrary: s)
    case Nil
    then show ?case by simp
  next
    case (Cons nc ncs)
    have "index_ok (index (process_one env directory_path s nc))"
      by (rule index_ok_process_one [OF assms(1) Cons.prems])
    from Cons.IH [OF this] show ?case by simp
  qed
  then show ?thesis using ok by (simp add: process_directory_def Some)
qed

end
